theory Spec2Isabelle
  imports Complex_Main "HOL-Library.Word"
begin

section \<open>Python values used by the authentication and report modules\<close>

text \<open>
  Strings are byte strings (UTF-8), so \<open>verifier.encode()\<close> is the change of type
  \<open>encode\<close> below. Python's floats (clock readings, expiry instants, \<open>expires_in\<close>)
  are values of a type \<open>'f\<close> about which nothing is assumed: their arithmetic, their
  comparison, their truth value, \<open>str\<close> and \<open>float\<close> come with the library record
  \<open>pylib\<close> below, so every theorem holds for floating-point arithmetic as it is, for
  infinities and for \<open>nan\<close>. Calls of \<open>Logger.log\<close> have no effect on any result and
  are left out.
\<close>

type_synonym bytes = "8 word list"

definition encode :: "string \<Rightarrow> bytes" where
  "encode s = map (\<lambda>c. of_nat (of_char c)) s"

definition decode :: "bytes \<Rightarrow> string" where
  "decode b = map (\<lambda>x. char_of (unat x)) b"

text \<open>Truthiness of an optional string: \<open>None\<close> and the empty string are false.\<close>

definition truthy :: "string option \<Rightarrow> bool" where
  "truthy s = (case s of None \<Rightarrow> False | Some v \<Rightarrow> v \<noteq> [])"

text \<open>\<open>s.replace(old, new)\<close> for a non-empty \<open>old\<close>: leftmost occurrences, not overlapping.\<close>

function py_replace :: "string \<Rightarrow> string \<Rightarrow> string \<Rightarrow> string" where
  "py_replace old new [] = []"
| "py_replace old new (c # cs) =
     (if old \<noteq> [] \<and> take (length old) (c # cs) = old
      then new @ py_replace old new (drop (length old) (c # cs))
      else c # py_replace old new cs)"
  by pat_completeness auto
termination
  by (relation "measure (\<lambda>(old, new, s). length s)") auto

text \<open>\<open>s.rstrip(chars)\<close>: drops the longest suffix made of characters of \<open>chars\<close>.\<close>

definition py_rstrip :: "string \<Rightarrow> string \<Rightarrow> string" where
  "py_rstrip chars s = rev (dropWhile (\<lambda>c. c \<in> set chars) (rev s))"







section \<open>Errors\<close>

datatype error =
    TimeoutError string
  | OSError string
  | RequestException string
  | HTTPError int
  | JSONDecodeError
  | KeyError string
  | ValueError string
  | TypeError string
  | KeyringError string
  | ParseError
  | DecodeError
  | ClientError string
  | Exception string

section \<open>Library functions taken as parameters\<close>

text \<open>
  \<open>hashlib.sha256(b).digest()\<close>, \<open>base64.b64encode\<close>, \<open>base64.b64decode(s).decode('utf-8')\<close>
  (which raises on bad padding or on bytes that are not UTF-8), \<open>ET.fromstring\<close> (which
  raises on text that is not XML), \<open>int(s)\<close> and \<open>float(s)\<close> on strings (which raise
  \<open>ValueError\<close>), \<open>str(x)\<close> of a float, and the float operations the two modules use
  (\<open>x + y\<close>, \<open>x - y\<close>, \<open>x < y\<close>, the truth value of \<open>x\<close>, the float of an integer
  literal) belong to Python and its library. \<open>None\<close> stands for the exception. Every
  result below holds for any functions in their place.
\<close>

datatype xml = Elem (xtag: string) (xtext: "string option") (xchildren: "xml list")

record 'f pylib =
  sha256 :: "bytes \<Rightarrow> bytes"
  b64encode :: "bytes \<Rightarrow> bytes"
  b64decode_utf8 :: "string \<Rightarrow> string option"
  fromstring :: "string \<Rightarrow> xml option"
  int_of_str :: "string \<Rightarrow> int option"
  float_of_str :: "string \<Rightarrow> 'f option"
  str_of_float :: "'f \<Rightarrow> string"
  float_of_int :: "int \<Rightarrow> 'f"
  float_add :: "'f \<Rightarrow> 'f \<Rightarrow> 'f"
  float_sub :: "'f \<Rightarrow> 'f \<Rightarrow> 'f"
  float_less :: "'f \<Rightarrow> 'f \<Rightarrow> bool"
  float_truthy :: "'f \<Rightarrow> bool"

text \<open>Truthiness of an optional float: \<open>None\<close> is false, a float has its own truth value.\<close>

definition truthy_num :: "'f pylib \<Rightarrow> 'f option \<Rightarrow> bool" where
  "truthy_num L t = (case t of None \<Rightarrow> False | Some v \<Rightarrow> float_truthy L v)"

text \<open>\<open>str(x)\<close> of an optional float; \<open>str(None)\<close> is the text \<open>None\<close>.\<close>

definition str_float_opt :: "'f pylib \<Rightarrow> 'f option \<Rightarrow> string" where
  "str_float_opt L t = (case t of None \<Rightarrow> ''None'' | Some v \<Rightarrow> str_of_float L v)"

text \<open>
  The test \<open>time.time() < expiry - 300\<close> of \<open>get_connection\<close>, and the test
  \<open>time.time() - start_time > timeout\<close> of \<open>start_auth_server\<close> with \<open>timeout = 300\<close>.
\<close>

definition before_margin :: "'f pylib \<Rightarrow> 'f \<Rightarrow> 'f \<Rightarrow> bool" where
  "before_margin L now expiry = float_less L now (float_sub L expiry (float_of_int L 300))"

definition timed_out :: "'f pylib \<Rightarrow> 'f \<Rightarrow> 'f \<Rightarrow> bool" where
  "timed_out L now start_time = float_less L (float_of_int L 300) (float_sub L now start_time)"

section \<open>PKCE: \<open>generate_code_verifier\<close> and \<open>generate_code_challenge\<close>\<close>

definition ascii_lowercase :: string where
  "ascii_lowercase = ''abcdefghijklmnopqrstuvwxyz''"

definition ascii_uppercase :: string where
  "ascii_uppercase = ''ABCDEFGHIJKLMNOPQRSTUVWXYZ''"

definition ascii_letters :: string where
  "ascii_letters = ascii_lowercase @ ascii_uppercase"

definition digits :: string where
  "digits = ''0123456789''"

definition chars :: string where
  "chars = ascii_letters @ digits @ ''-._~''"

text \<open>
  \<open>secrets.choice(seq)\<close> is \<open>seq[randbelow(len(seq))]\<close>. The random source is a stream of
  natural numbers; the draw below \<open>len(seq)\<close> is the number modulo the length, so every
  sequence of indices is the image of some stream. On an empty sequence the source raises
  \<open>IndexError\<close>.
\<close>

definition secrets_choice :: "nat \<Rightarrow> 'a list \<Rightarrow> 'a option" where
  "secrets_choice r seq = (if seq = [] then None else Some (seq ! (r mod length seq)))"

text \<open>
  \<open>''.join(secrets.choice(chars) for _ in range(128))\<close>, drawing from position \<open>pos\<close> of
  the stream on. \<open>None\<close> is the \<open>IndexError\<close> of a failed draw.
\<close>

fun join_choices :: "(nat \<Rightarrow> nat) \<Rightarrow> nat \<Rightarrow> nat \<Rightarrow> string option" where
  "join_choices rnd pos 0 = Some []"
| "join_choices rnd pos (Suc n) =
     (case secrets_choice (rnd pos) chars of
        None \<Rightarrow> None
      | Some c \<Rightarrow> (case join_choices rnd (Suc pos) n of None \<Rightarrow> None | Some cs \<Rightarrow> Some (c # cs)))"

definition generate_code_verifier :: "(nat \<Rightarrow> nat) \<Rightarrow> nat \<Rightarrow> string option" where
  "generate_code_verifier rnd pos = join_choices rnd pos 128"

definition generate_code_challenge :: "'f pylib \<Rightarrow> string \<Rightarrow> string" where
  "generate_code_challenge L verifier =
     (let hash = sha256 L (encode verifier);
          challenge = py_rstrip ''=''
            (py_replace ''/'' ''_'' (py_replace ''+'' ''-'' (decode (b64encode L hash))))
      in challenge)"

text \<open>The character class \<open>[A-Za-z0-9-._~]\<close> of the specification, by code point.\<close>

definition verifier_char :: "char \<Rightarrow> bool" where
  "verifier_char c =
     (let n = (of_char c :: nat)
      in (65 \<le> n \<and> n \<le> 90) \<or> (97 \<le> n \<and> n \<le> 122) \<or> (48 \<le> n \<and> n \<le> 57)
         \<or> n = 45 \<or> n = 46 \<or> n = 95 \<or> n = 126)"

section \<open>The world outside the process\<close>

text \<open>
  Everything the two modules read from or write to outside their own objects:
  \<^item> the keyring service \<open>mcp_oracle\<close>, a map from account name to secret; any call
    of the keyring may raise (backend missing or locked, nothing to delete):
    \<open>keyring_fails k\<close> says whether the \<open>k\<close>-th call does, \<open>keyring_calls\<close> counts them;
  \<^item> the clock: \<open>clock k\<close> is the value of the \<open>k\<close>-th call of \<open>time.time()\<close>, and
    \<open>ticks\<close> counts the calls made;
  \<^item> the token endpoint: \<open>token_endpoint k\<close> answers the \<open>k\<close>-th \<open>requests.post\<close>, and
    \<open>post_log\<close> holds the forms posted so far;
  \<^item> the loopback port 3009: \<open>port_taken k\<close> says whether the \<open>k\<close>-th attempt to bind it
    finds it taken, \<open>binds\<close> counts the attempts; \<open>socket_open\<close> says that a listening
    socket of this process is bound to the port (only \<open>server_close()\<close> would close it,
    and the module never calls it); \<open>listener\<close> is the state of the serving loop;
  \<^item> the class attribute \<open>OAuthCallbackHandler.auth_code\<close>: \<open>handler_code k\<close> is what the
    \<open>k\<close>-th evaluation of the waiting loop's condition reads there, \<open>polls\<close> counts
    the evaluations;
  \<^item> the browser (\<open>browser_log\<close>: the authorization requests opened);
  \<^item> the random source of \<open>secrets\<close> (\<open>entropy\<close>, \<open>drawn\<close>);
  \<^item> the SOAP service: \<open>soap_server k\<close> answers the \<open>k\<close>-th POST, \<open>soap_log\<close> holds the
    envelopes posted so far;
  \<^item> the file system: \<open>files\<close>, and \<open>unwritable\<close>, the paths \<open>open\<close> raises on;
  \<^item> the values \<open>datetime.now().strftime(...)\<close> and \<open>str(uuid.uuid4())\<close> of a report run.
\<close>

record 'f token_data =
  td_access_token :: "string option"
  td_expires_in :: "'f option"
  td_refresh_token :: "string option"

text \<open>
  An answer of the token endpoint: no answer at all (connection error, time-out), or a
  status with a body that is a JSON object (\<open>Some\<close>) or is not JSON (\<open>None\<close>).
  The values of \<open>access_token\<close> and \<open>refresh_token\<close> are strings and that of
  \<open>expires_in\<close> a number (taken as the float it adds as), as the token endpoint's
  interface says; a key may be absent.
\<close>

datatype 'f token_reply = NoTokenReply string | TokenReply int "'f token_data option"

datatype listener_state = Idle | Serving | Stopped

datatype soap_reply = NoSoapReply string | SoapReply int string

datatype envelope =
    RunReport string "(string \<times> string) list"
  | DownloadReportDataChunk "string option" int int

record authorize_request =
  ar_url :: string
  ar_params :: "(string \<times> string) list"

record 'f world =
  keyring :: "string \<rightharpoonup> string"
  keyring_fails :: "nat \<Rightarrow> bool"
  keyring_calls :: nat
  clock :: "nat \<Rightarrow> 'f"
  ticks :: nat
  token_endpoint :: "nat \<Rightarrow> 'f token_reply"
  post_log :: "(string \<times> (string \<times> string) list) list"
  port_taken :: "nat \<Rightarrow> bool"
  binds :: nat
  socket_open :: bool
  listener :: listener_state
  handler_code :: "nat \<Rightarrow> string option"
  polls :: nat
  browser_log :: "authorize_request list"
  entropy :: "nat \<Rightarrow> nat"
  drawn :: nat
  soap_server :: "nat \<Rightarrow> soap_reply"
  soap_log :: "envelope list"
  files :: "string \<rightharpoonup> string"
  unwritable :: "string \<Rightarrow> bool"
  timestamp :: string
  uuid4 :: string

definition time_time :: "'f world \<Rightarrow> 'f \<times> 'f world" where
  "time_time w = (clock w (ticks w), w\<lparr>ticks := Suc (ticks w)\<rparr>)"

subsection \<open>The keyring\<close>

text \<open>
  A call that raises changes nothing but the count of calls. Otherwise
  \<open>keyring.get_password\<close> returns the secret, or \<open>None\<close> for an account with none,
  \<open>keyring.set_password\<close> stores or replaces, and \<open>keyring.delete_password\<close> removes.
\<close>

definition get_password :: "string \<Rightarrow> 'f world \<Rightarrow> (error + string option) \<times> 'f world" where
  "get_password account w =
     (if keyring_fails w (keyring_calls w)
      then (Inl (KeyringError account), w\<lparr>keyring_calls := Suc (keyring_calls w)\<rparr>)
      else (Inr (keyring w account), w\<lparr>keyring_calls := Suc (keyring_calls w)\<rparr>))"

definition set_password :: "string \<Rightarrow> string \<Rightarrow> 'f world \<Rightarrow> (error + unit) \<times> 'f world" where
  "set_password account secret w =
     (if keyring_fails w (keyring_calls w)
      then (Inl (KeyringError account), w\<lparr>keyring_calls := Suc (keyring_calls w)\<rparr>)
      else (Inr (), w\<lparr>keyring_calls := Suc (keyring_calls w),
                      keyring := (keyring w)(account \<mapsto> secret)\<rparr>))"

definition delete_password :: "string \<Rightarrow> 'f world \<Rightarrow> (error + unit) \<times> 'f world" where
  "delete_password account w =
     (if keyring_fails w (keyring_calls w)
      then (Inl (KeyringError account), w\<lparr>keyring_calls := Suc (keyring_calls w)\<rparr>)
      else (Inr (), w\<lparr>keyring_calls := Suc (keyring_calls w),
                      keyring := (keyring w)(account := None)\<rparr>))"

section \<open>\<open>OracleAuth\<close>\<close>

record 'f oracle_auth =
  auth_url :: string
  token_url :: string
  client_id :: string
  scope :: string
  redirect_uri :: string
  access_token :: "string option"
  token_expiry :: "'f option"
  refresh_token :: "string option"

text \<open>
  \<open>save_to_keychain\<close>: the \<open>set_password\<close> calls stand in one \<open>try\<close>; the first that
  raises ends the block, and the \<open>except\<close> branch only logs.
\<close>

definition save_to_keychain ::
  "'f pylib \<Rightarrow> 'f world \<Rightarrow> string \<Rightarrow> 'f option \<Rightarrow> string option \<Rightarrow> 'f world" where
  "save_to_keychain L w token expiry_time refresh =
     (case set_password ''oauth_token'' token w of
        (Inl e, w1) \<Rightarrow> w1
      | (Inr u, w1) \<Rightarrow>
          (case set_password ''oauth_token_expiry'' (str_float_opt L expiry_time) w1 of
             (Inl e, w2) \<Rightarrow> w2
           | (Inr u, w2) \<Rightarrow>
               (if truthy refresh
                then snd (set_password ''oauth_refresh_token'' (the refresh) w2)
                else w2)))"

text \<open>
  \<open>load_from_keychain\<close>: an exception of one of the three \<open>get_password\<close> calls, and the
  \<open>ValueError\<close> of \<open>float(expiry_str)\<close>, are caught by the \<open>except\<close> branch, which
  returns \<open>(None, None, None)\<close>.
\<close>

definition load_from_keychain ::
  "'f pylib \<Rightarrow> 'f world \<Rightarrow> (string option \<times> 'f option \<times> string option) \<times> 'f world" where
  "load_from_keychain L w =
     (case get_password ''oauth_token'' w of
        (Inl e, w1) \<Rightarrow> ((None, None, None), w1)
      | (Inr token, w1) \<Rightarrow>
          (case get_password ''oauth_token_expiry'' w1 of
             (Inl e, w2) \<Rightarrow> ((None, None, None), w2)
           | (Inr expiry_str, w2) \<Rightarrow>
               (case get_password ''oauth_refresh_token'' w2 of
                  (Inl e, w3) \<Rightarrow> ((None, None, None), w3)
                | (Inr refresh, w3) \<Rightarrow>
                    (if truthy expiry_str
                     then (case float_of_str L (the expiry_str) of
                             None \<Rightarrow> ((None, None, None), w3)
                           | Some expiry \<Rightarrow> ((token, Some expiry, refresh), w3))
                     else ((token, None, refresh), w3)))))"

text \<open>
  \<open>clear_keychain\<close>: the three deletions stand in one \<open>try\<close>; the first that raises ends
  the block, and the \<open>except\<close> branch only logs.
\<close>

definition clear_keychain :: "'f world \<Rightarrow> 'f world" where
  "clear_keychain w =
     (case delete_password ''oauth_token'' w of
        (Inl e, w1) \<Rightarrow> w1
      | (Inr u, w1) \<Rightarrow>
          (case delete_password ''oauth_token_expiry'' w1 of
             (Inl e, w2) \<Rightarrow> w2
           | (Inr u, w2) \<Rightarrow> snd (delete_password ''oauth_refresh_token'' w2)))"

subsection \<open>The callback wait of \<open>start_auth_server\<close>\<close>

text \<open>
  The loop \<open>while OAuthCallbackHandler.auth_code is None\<close>: each turn reads the class
  attribute; while it is \<open>None\<close> the clock is read, and when
  \<open>time.time() - start_time > timeout\<close> the server is shut down (\<open>server.shutdown()\<close>
  stops the serving loop; the socket stays as it is) and \<open>TimeoutError\<close> is raised;
  otherwise \<open>time.sleep(1)\<close> and the next turn. The loop need not end, so the result is
  an \<open>option\<close>: \<open>None\<close> is a wait that never returns.
\<close>

partial_function (option) wait_for_code ::
  "'f pylib \<Rightarrow> 'f \<Rightarrow> 'f world \<Rightarrow> ((error + string) \<times> 'f world) option" where
  "wait_for_code L start_time w =
     (case handler_code w (polls w) of
        Some auth_code \<Rightarrow> Some (Inr auth_code, w\<lparr>polls := Suc (polls w)\<rparr>)
      | None \<Rightarrow>
          (if timed_out L (fst (time_time (w\<lparr>polls := Suc (polls w)\<rparr>))) start_time
           then Some (Inl (TimeoutError ''Authorization timed out after 5 minutes''),
                      (snd (time_time (w\<lparr>polls := Suc (polls w)\<rparr>)))\<lparr>listener := Stopped\<rparr>)
           else wait_for_code L start_time (snd (time_time (w\<lparr>polls := Suc (polls w)\<rparr>)))))"

text \<open>
  \<open>webbrowser.open(auth_url)\<close>: the URL is \<open>auth_url\<close>, a question mark and the
  URL-encoded parameters; the log keeps the two parts.
\<close>

definition webbrowser_open :: "authorize_request \<Rightarrow> 'f world \<Rightarrow> 'f world" where
  "webbrowser_open r w = w\<lparr>browser_log := browser_log w @ [r]\<rparr>"

text \<open>
  \<open>start_auth_server\<close>: \<open>HTTPServer(('127.0.0.1', 3009), ...)\<close> binds the port and raises
  \<open>OSError\<close> when it is taken. The verifier takes 128 draws of the random source. After
  the loop, on a code, \<open>server.shutdown()\<close> again stops the serving loop only. Every
  exception is logged and raised again by the outer \<open>except\<close>.
\<close>

definition start_auth_server ::
  "'f pylib \<Rightarrow> 'f world \<Rightarrow> 'f oracle_auth \<Rightarrow> ((error + string \<times> string) \<times> 'f world) option" where
  "start_auth_server L w a =
     (let w0 = w\<lparr>binds := Suc (binds w)\<rparr>
      in if port_taken w (binds w) then Some (Inl (OSError ''Address already in use''), w0)
         else
           (let w1 = w0\<lparr>socket_open := True, listener := Serving\<rparr>
            in case generate_code_verifier (entropy w1) (drawn w1) of
                 None \<Rightarrow> Some (Inl (Exception ''Cannot choose from an empty sequence''), w1)
               | Some code_verifier \<Rightarrow>
                   (let w2 = w1\<lparr>drawn := drawn w1 + 128\<rparr>;
                        code_challenge = generate_code_challenge L code_verifier;
                        auth_params =
                          [(''client_id'', client_id a),
                           (''response_type'', ''code''),
                           (''redirect_uri'', redirect_uri a),
                           (''scope'', scope a),
                           (''code_challenge'', code_challenge),
                           (''code_challenge_method'', ''S256'')];
                        w3 = webbrowser_open \<lparr>ar_url = auth_url a, ar_params = auth_params\<rparr> w2;
                        (start_time, w4) = time_time w3
                    in case wait_for_code L start_time w4 of
                         None \<Rightarrow> None
                       | Some (Inl e, w5) \<Rightarrow> Some (Inl e, w5)
                       | Some (Inr auth_code, w5) \<Rightarrow>
                           Some (Inr (auth_code, code_verifier), w5\<lparr>listener := Stopped\<rparr>))))"

subsection \<open>The token endpoint\<close>

definition requests_post ::
  "string \<Rightarrow> (string \<times> string) list \<Rightarrow> 'f world \<Rightarrow> 'f token_reply \<times> 'f world" where
  "requests_post url form w =
     (token_endpoint w (length (post_log w)), w\<lparr>post_log := post_log w @ [(url, form)]\<rparr>)"

text \<open>
  \<open>response.raise_for_status()\<close> and \<open>response.json()\<close>: an \<open>HTTPError\<close> for a status
  from 400 to 599, a decoding error for a body that is not JSON.
\<close>

definition read_token_reply :: "'f token_reply \<Rightarrow> error + 'f token_data" where
  "read_token_reply r =
     (case r of
        NoTokenReply msg \<Rightarrow> Inl (RequestException msg)
      | TokenReply status body \<Rightarrow>
          (if 400 \<le> status \<and> status < 600 then Inl (HTTPError status)
           else case body of None \<Rightarrow> Inl JSONDecodeError | Some token_data \<Rightarrow> Inr token_data))"

text \<open>
  What both \<open>get_token\<close> and \<open>refresh_access_token\<close> do with the decoded answer:
  \<open>token_data['access_token']\<close> (a \<open>KeyError\<close> when absent), the expiry when
  \<open>expires_in\<close> is there, the refresh token when it is there, then \<open>save_to_keychain\<close>.
\<close>

definition store_token_data ::
  "'f pylib \<Rightarrow> 'f token_data \<Rightarrow> 'f world \<Rightarrow> 'f oracle_auth \<Rightarrow>
   (error + string) \<times> 'f world \<times> 'f oracle_auth" where
  "store_token_data L token_data w a =
     (case td_access_token token_data of
        None \<Rightarrow> (Inl (KeyError ''access_token''), w, a)
      | Some tok \<Rightarrow>
          (let a1 = a\<lparr>access_token := Some tok\<rparr>;
               (w2, a2) =
                 (case td_expires_in token_data of
                    None \<Rightarrow> (w, a1)
                  | Some expires_in \<Rightarrow>
                      (snd (time_time w),
                       a1\<lparr>token_expiry := Some (float_add L (fst (time_time w)) expires_in)\<rparr>));
               a3 =
                 (case td_refresh_token token_data of
                    None \<Rightarrow> a2
                  | Some r \<Rightarrow> a2\<lparr>refresh_token := Some r\<rparr>);
               w3 = save_to_keychain L w2 tok (token_expiry a3)
                      (if td_refresh_token token_data \<noteq> None then refresh_token a3 else None)
           in (Inr tok, w3, a3)))"

text \<open>\<open>get_token\<close>: every exception leaves the function (the \<open>except\<close> branch raises again).\<close>

definition get_token ::
  "'f pylib \<Rightarrow> 'f world \<Rightarrow> 'f oracle_auth \<Rightarrow> string \<Rightarrow> string \<Rightarrow>
   (error + 'f token_data) \<times> 'f world \<times> 'f oracle_auth" where
  "get_token L w a auth_code code_verifier =
     (let token_params =
            [(''grant_type'', ''authorization_code''),
             (''code'', auth_code),
             (''redirect_uri'', redirect_uri a),
             (''client_id'', client_id a),
             (''code_verifier'', code_verifier)];
          (response, w1) = requests_post (token_url a) token_params w
      in case read_token_reply response of
           Inl e \<Rightarrow> (Inl e, w1, a)
         | Inr token_data \<Rightarrow>
             (case store_token_data L token_data w1 a of
                (Inl e, w2, a2) \<Rightarrow> (Inl e, w2, a2)
              | (Inr tok, w2, a2) \<Rightarrow> (Inr token_data, w2, a2)))"

text \<open>
  \<open>refresh_access_token\<close>: the refresh token of the instance, else the keychain's; with
  none, \<open>None\<close> is returned at once. Any exception of the \<open>try\<close> block clears the three
  fields, calls \<open>clear_keychain\<close> and gives \<open>None\<close>.
\<close>

definition refresh_access_token ::
  "'f pylib \<Rightarrow> 'f world \<Rightarrow> 'f oracle_auth \<Rightarrow> string option \<times> 'f world \<times> 'f oracle_auth" where
  "refresh_access_token L w a =
     (let (refresh, w0) =
            (if truthy (refresh_token a) then (refresh_token a, w)
             else (snd (snd (fst (load_from_keychain L w))), snd (load_from_keychain L w)))
      in if \<not> truthy refresh then (None, w0, a)
         else
           (let token_params =
                  [(''grant_type'', ''refresh_token''),
                   (''refresh_token'', the refresh),
                   (''client_id'', client_id a)];
                (response, w1) = requests_post (token_url a) token_params w0;
                failed = (\<lambda>wf. (None, clear_keychain wf,
                                 a\<lparr>access_token := None, refresh_token := None, token_expiry := None\<rparr>))
            in case read_token_reply response of
                 Inl e \<Rightarrow> failed w1
               | Inr token_data \<Rightarrow>
                   (case store_token_data L token_data w1 a of
                      (Inl e, w2, a2) \<Rightarrow> failed w2
                    | (Inr tok, w2, a2) \<Rightarrow> (access_token a2, w2, a2))))"

text \<open>
  The last block of \<open>get_connection\<close> (the full authentication flow): whatever
  \<open>start_auth_server\<close> or \<open>get_token\<close> raises is caught, logged, and \<open>None\<close> is returned.
\<close>

definition full_auth_flow ::
  "'f pylib \<Rightarrow> 'f world \<Rightarrow> 'f oracle_auth \<Rightarrow>
   ((error + string option) \<times> 'f world \<times> 'f oracle_auth) option" where
  "full_auth_flow L w a =
     (case start_auth_server L w a of
        None \<Rightarrow> None
      | Some (Inl e, w1) \<Rightarrow> Some (Inr None, w1, a)
      | Some (Inr (auth_code, code_verifier), w1) \<Rightarrow>
          (case get_token L w1 a auth_code code_verifier of
             (Inl e, w2, a2) \<Rightarrow> Some (Inr None, w2, a2)
           | (Inr token_data, w2, a2) \<Rightarrow> Some (Inr (td_access_token token_data), w2, a2)))"

text \<open>
  \<open>get_connection\<close>: the instance's token, then the keychain's, then a refresh, then
  the full flow. \<open>expiry\<close> is already a float when \<open>float(expiry)\<close> is applied to it, so
  the \<open>ValueError\<close> branch is never taken.
\<close>

definition get_connection ::
  "'f pylib \<Rightarrow> 'f world \<Rightarrow> 'f oracle_auth \<Rightarrow>
   ((error + string option) \<times> 'f world \<times> 'f oracle_auth) option" where
  "get_connection L w a =
     (let (fresh, w1) =
            (if truthy (access_token a) \<and> truthy_num L (token_expiry a)
             then (before_margin L (fst (time_time w)) (the (token_expiry a)), snd (time_time w))
             else (False, w))
      in if fresh then Some (Inr (access_token a), w1, a)
         else
           (let ((token, expiry, _), w1') = load_from_keychain L w1;
                (stored_fresh, w2) =
                  (if truthy token \<and> truthy_num L expiry
                   then (before_margin L (fst (time_time w1')) (the expiry), snd (time_time w1'))
                   else (False, w1'))
            in if stored_fresh
               then Some (Inr token, w2, a\<lparr>access_token := token, token_expiry := expiry\<rparr>)
               else
                 (let (refreshed_token, w3, a3) = refresh_access_token L w2 a
                  in if truthy refreshed_token then Some (Inr refreshed_token, w3, a3)
                     else full_auth_flow L w3 a3)))"

definition close_connection :: "'f world \<Rightarrow> 'f oracle_auth \<Rightarrow> 'f world \<times> 'f oracle_auth" where
  "close_connection w a =
     (clear_keychain w, a\<lparr>access_token := None, token_expiry := None, refresh_token := None\<rparr>)"

section \<open>\<open>OracleReportService\<close>\<close>








definition ns2 :: "string \<Rightarrow> string" where
  "ns2 name = ''{http://xmlns.oracle.com/oxp/service/PublicReportService}'' @ name"








section \<open>Notions of the specification\<close>

text \<open>
  These definitions follow the words of the specification; the theorems below compare
  the functions above with them.
\<close>

text \<open>The S256 transform, character by character: \<open>+\<close> becomes \<open>-\<close>, \<open>/\<close> becomes \<open>_\<close>.\<close>

definition url_safe :: "char \<Rightarrow> char" where
  "url_safe c = (if c = CHR ''+'' then CHR ''-'' else if c = CHR ''/'' then CHR ''_'' else c)"

text \<open>
  A credential is usable while \<open>now < expiry - 300\<close>. For the instance's token, \<open>now\<close> is
  the next clock reading.
\<close>

definition memory_token_fresh :: "'f pylib \<Rightarrow> 'f world \<Rightarrow> 'f oracle_auth \<Rightarrow> bool" where
  "memory_token_fresh L w a =
     (truthy (access_token a) \<and> truthy_num L (token_expiry a)
      \<and> before_margin L (clock w (ticks w)) (the (token_expiry a)))"

text \<open>
  The keychain is read after the instance's token has been looked at, which took a clock
  reading when the instance held a token and an expiry. \<open>stored_token\<close> and
  \<open>stored_expiry\<close> are what is read, \<open>keychain_read\<close> is the world after reading. For the
  keychain's token, \<open>now\<close> is the clock reading made then.
\<close>

definition memory_checked :: "'f pylib \<Rightarrow> 'f world \<Rightarrow> 'f oracle_auth \<Rightarrow> 'f world" where
  "memory_checked L w a =
     (if truthy (access_token a) \<and> truthy_num L (token_expiry a)
      then w\<lparr>ticks := Suc (ticks w)\<rparr> else w)"

definition stored_token :: "'f pylib \<Rightarrow> 'f world \<Rightarrow> 'f oracle_auth \<Rightarrow> string option" where
  "stored_token L w a = fst (fst (load_from_keychain L (memory_checked L w a)))"

definition stored_expiry :: "'f pylib \<Rightarrow> 'f world \<Rightarrow> 'f oracle_auth \<Rightarrow> 'f option" where
  "stored_expiry L w a = fst (snd (fst (load_from_keychain L (memory_checked L w a))))"

definition keychain_read :: "'f pylib \<Rightarrow> 'f world \<Rightarrow> 'f oracle_auth \<Rightarrow> 'f world" where
  "keychain_read L w a = snd (load_from_keychain L (memory_checked L w a))"

definition stored_token_fresh :: "'f pylib \<Rightarrow> 'f world \<Rightarrow> 'f oracle_auth \<Rightarrow> bool" where
  "stored_token_fresh L w a =
     (truthy (stored_token L w a) \<and> truthy_num L (stored_expiry L w a)
      \<and> before_margin L (clock (keychain_read L w a) (ticks (keychain_read L w a)))
          (the (stored_expiry L w a)))"

text \<open>The world after both looks, when neither gave a token.\<close>

definition cache_checked :: "'f pylib \<Rightarrow> 'f world \<Rightarrow> 'f oracle_auth \<Rightarrow> 'f world" where
  "cache_checked L w a =
     (if truthy (stored_token L w a) \<and> truthy_num L (stored_expiry L w a)
      then (keychain_read L w a)\<lparr>ticks := Suc (ticks (keychain_read L w a))\<rparr>
      else keychain_read L w a)"

text \<open>
  The token \<open>tok\<close> was issued between the worlds \<open>w\<close> and \<open>w'\<close>: it is the
  \<open>access_token\<close> of a successful answer of the token endpoint to one of the requests
  posted from \<open>w\<close> to \<open>w'\<close>.
\<close>

definition issued_between :: "'f world \<Rightarrow> 'f world \<Rightarrow> string \<Rightarrow> bool" where
  "issued_between w w' tok =
     (\<exists>k status td. length (post_log w) \<le> k \<and> k < length (post_log w')
        \<and> token_endpoint w k = TokenReply status (Some td)
        \<and> \<not> (400 \<le> status \<and> status < 600) \<and> td_access_token td = Some tok)"

text \<open>
  The refresh token \<open>refresh_access_token\<close> uses (the instance's, else the keychain's),
  and the world in which it posts (after the keychain was read, when it was).
\<close>

definition refresh_candidate :: "'f pylib \<Rightarrow> 'f world \<Rightarrow> 'f oracle_auth \<Rightarrow> string option" where
  "refresh_candidate L w a =
     (if truthy (refresh_token a) then refresh_token a
      else snd (snd (fst (load_from_keychain L w))))"

definition refresh_world :: "'f pylib \<Rightarrow> 'f world \<Rightarrow> 'f oracle_auth \<Rightarrow> 'f world" where
  "refresh_world L w a =
     (if truthy (refresh_token a) then w else snd (load_from_keychain L w))"


text \<open>The instance with its three credential fields set to \<open>None\<close>.\<close>

definition credentials_cleared :: "'f oracle_auth \<Rightarrow> 'f oracle_auth" where
  "credentials_cleared a = a\<lparr>access_token := None, refresh_token := None, token_expiry := None\<rparr>"





text \<open>The begin offsets of \<open>n\<close> successive requests: \<open>0\<close>, \<open>chunk_size\<close>, \<open>2 * chunk_size\<close>, ...\<close>

definition download_requests :: "string option \<Rightarrow> int \<Rightarrow> int \<Rightarrow> nat \<Rightarrow> envelope list" where
  "download_requests file_id begin_idx chunk_size n =
     map (\<lambda>k. DownloadReportDataChunk file_id (begin_idx + chunk_size * int k) chunk_size) [0..<n]"

subsection \<open>What a step leaves as it is\<close>

text \<open>
  The callback wait changes the clock count, the polls and the listener, and nothing
  else of what follows.
\<close>

definition untouched_by_wait :: "'f world \<Rightarrow> 'f world \<Rightarrow> bool" where
  "untouched_by_wait w w' =
     (keyring w' = keyring w \<and> keyring_fails w' = keyring_fails w
      \<and> keyring_calls w' = keyring_calls w \<and> clock w' = clock w
      \<and> token_endpoint w' = token_endpoint w \<and> post_log w' = post_log w
      \<and> port_taken w' = port_taken w \<and> binds w' = binds w \<and> socket_open w' = socket_open w
      \<and> soap_server w' = soap_server w \<and> soap_log w' = soap_log w
      \<and> files w' = files w \<and> unwritable w' = unwritable w)"

text \<open>
  Reading the clock and calling the keyring change the count of clock readings, the
  keychain and the count of keyring calls, and nothing of what follows.
\<close>

definition keychain_step :: "'f world \<Rightarrow> 'f world \<Rightarrow> bool" where
  "keychain_step w w' =
     (clock w' = clock w \<and> keyring_fails w' = keyring_fails w
      \<and> token_endpoint w' = token_endpoint w \<and> post_log w' = post_log w
      \<and> port_taken w' = port_taken w \<and> binds w' = binds w \<and> socket_open w' = socket_open w
      \<and> soap_server w' = soap_server w \<and> soap_log w' = soap_log w
      \<and> files w' = files w \<and> unwritable w' = unwritable w)"

text \<open>
  No step of \<open>OracleAuth\<close> touches the SOAP service or the files, none changes what the
  token endpoint answers, and the log of posted forms only grows.
\<close>

definition auth_step :: "'f world \<Rightarrow> 'f world \<Rightarrow> bool" where
  "auth_step w w' =
     (token_endpoint w' = token_endpoint w \<and> (\<exists>forms. post_log w' = post_log w @ forms)
      \<and> binds w \<le> binds w'
      \<and> soap_server w' = soap_server w \<and> soap_log w' = soap_log w
      \<and> files w' = files w \<and> unwritable w' = unwritable w)"

section \<open>Example values\<close>

text \<open>
  Concrete inputs at which the theorems below are instantiated. The example library
  takes the real numbers for the floats, and tables for the parsers and the base64
  decoder; it stands for no more than one possible library.
\<close>

definition example_floats :: "(string \<times> real) list" where
  "example_floats = [(''5000.5'', 5000.5), (''1200.25'', 1200.25)]"

definition example_ints :: "(string \<times> int) list" where
  "example_ints = [(''0'', 0), (''5000'', 5000), (''10000'', 10000), (''-1'', - 1)]"

definition run_report_response :: "string \<Rightarrow> xml" where
  "run_report_response file_id =
     Elem ''{http://www.w3.org/2003/05/soap-envelope}Envelope'' None
       [Elem ''{http://www.w3.org/2003/05/soap-envelope}Body'' None
         [Elem (ns2 ''runReportResponse'') None
           [Elem (ns2 ''runReportReturn'') None
             [Elem (ns2 ''reportFileID'') (Some file_id) []]]]]"

definition download_response :: "string option \<Rightarrow> string \<Rightarrow> xml" where
  "download_response chunk offset =
     Elem ''{http://www.w3.org/2003/05/soap-envelope}Envelope'' None
       [Elem ''{http://www.w3.org/2003/05/soap-envelope}Body'' None
         [Elem (ns2 ''downloadReportDataChunkResponse'') None
           [Elem (ns2 ''downloadReportDataChunkReturn'') None
             [Elem (ns2 ''reportDataChunk'') chunk [],
              Elem (ns2 ''reportDataOffset'') (Some offset) []]]]]"

definition empty_body :: xml where
  "empty_body =
     Elem ''{http://www.w3.org/2003/05/soap-envelope}Envelope'' None
       [Elem ''{http://www.w3.org/2003/05/soap-envelope}Body'' None []]"

definition example_documents :: "(string \<times> xml) list" where
  "example_documents =
     [(''run'', run_report_response ''FILE123''),
      (''chunk0'', download_response (Some ''aDEsaDIK'') ''0''),
      (''chunk1'', download_response (Some ''cjEscjIK'') ''5000''),
      (''chunk2'', download_response (Some ''cjMscjQK'') ''10000''),
      (''chunk3'', download_response (Some ''cjUscjYK'') ''-1''),
      (''nothing0'', download_response None ''0''),
      (''nothing1'', download_response (Some []) ''-1''),
      (''empty'', empty_body)]"

definition example_base64 :: "(string \<times> string) list" where
  "example_base64 =
     [(''aDEsaDIK'', ''h1,h2'' @ [CHR 0x0A]),
      (''cjEscjIK'', ''r1,r2'' @ [CHR 0x0A]),
      (''cjMscjQK'', ''r3,r4'' @ [CHR 0x0A]),
      (''cjUscjYK'', ''r5,r6'' @ [CHR 0x0A])]"

definition example_lib :: "real pylib" where
  "example_lib =
     \<lparr>sha256 = (\<lambda>b. b), b64encode = (\<lambda>b. b),
      b64decode_utf8 = map_of example_base64,
      fromstring = map_of example_documents,
      int_of_str = map_of example_ints,
      float_of_str = map_of example_floats,
      str_of_float = (\<lambda>x. if x = 5000.5 then ''5000.5'' else ''1200.25''),
      float_of_int = real_of_int,
      float_add = (\<lambda>x y. x + y), float_sub = (\<lambda>x y. x - y),
      float_less = (\<lambda>x y. x < y), float_truthy = (\<lambda>x. x \<noteq> 0)\<rparr>"

definition signed_out :: "real oracle_auth" where
  "signed_out =
     \<lparr>auth_url = ''https://idcs.example.com/oauth2/v1/authorize'',
      token_url = ''https://idcs.example.com/oauth2/v1/token'',
      client_id = ''client'', scope = ''urn:opc:resource:consumer::all'',
      redirect_uri = ''http://127.0.0.1:3009/callback'',
      access_token = None, token_expiry = None, refresh_token = None\<rparr>"

definition signed_in :: "real oracle_auth" where
  "signed_in = signed_out\<lparr>access_token := Some ''TOKEN'', token_expiry := Some 5000.5\<rparr>"

text \<open>
  A world in which nothing answers: an empty keychain that works, a clock that stands at
  1000.75, no token endpoint, a free port, no callback, no SOAP service, no file.
\<close>

definition quiet_world :: "real world" where
  "quiet_world =
     \<lparr>keyring = Map.empty, keyring_fails = (\<lambda>k. False), keyring_calls = 0,
      clock = (\<lambda>k. 1000.75), ticks = 0,
      token_endpoint = (\<lambda>k. NoTokenReply ''unreachable''), post_log = [],
      port_taken = (\<lambda>k. False), binds = 0, socket_open = False, listener = Idle,
      handler_code = (\<lambda>k. None), polls = 0, browser_log = [],
      entropy = (\<lambda>k. k), drawn = 0,
      soap_server = (\<lambda>k. NoSoapReply ''unreachable''), soap_log = [],
      files = Map.empty, unwritable = (\<lambda>p. False), timestamp = ''20240101_120000'',
      uuid4 = ''0f8fad5b-d9cb-469f-a165-70867728950e''\<rparr>"

text \<open>
  Worlds for the token lifecycle: a clock that advances 200.5 seconds per reading and no
  callback; a callback that is there at once and a token endpoint that does not answer;
  a keychain holding a token that expires at 5000.5; a keychain holding a token that
  expires at 1200.25, less than 200 seconds from now, with port 3009 taken.
\<close>

definition timeout_world :: "real world" where
  "timeout_world = quiet_world\<lparr>clock := \<lambda>k. 200.5 * real k\<rparr>"

definition exchange_failure_world :: "real world" where
  "exchange_failure_world = quiet_world\<lparr>handler_code := \<lambda>k. Some ''CODE''\<rparr>"

definition stored_token_world :: "real world" where
  "stored_token_world =
     quiet_world\<lparr>keyring := [''oauth_token'' \<mapsto> ''STORED'', ''oauth_token_expiry'' \<mapsto> ''5000.5'']\<rparr>"

definition near_expiry_world :: "real world" where
  "near_expiry_world =
     quiet_world\<lparr>keyring := [''oauth_token'' \<mapsto> ''STORED'', ''oauth_token_expiry'' \<mapsto> ''1200.25''],
                 port_taken := \<lambda>k. True\<rparr>"

text \<open>
  A keychain that holds a refresh token only, and a token endpoint that answers every
  request with a new token valid for 3999.75 seconds.
\<close>

definition refreshing_world :: "real world" where
  "refreshing_world =
     quiet_world\<lparr>keyring := [''oauth_refresh_token'' \<mapsto> ''REFRESH''],
                 token_endpoint := \<lambda>k. TokenReply 200
                   (Some \<lparr>td_access_token = Some ''NEW'', td_expires_in = Some 3999.75,
                          td_refresh_token = None\<rparr>)\<rparr>"



text \<open>A token endpoint whose answers carry a token and a refresh token, and no \<open>expires_in\<close>.\<close>

definition no_expiry_reply :: "real token_data" where
  "no_expiry_reply =
     \<lparr>td_access_token = Some ''NEW'', td_expires_in = None, td_refresh_token = Some ''REFRESH''\<rparr>"

definition no_expiry_world :: "real world" where
  "no_expiry_world = quiet_world\<lparr>token_endpoint := \<lambda>k. TokenReply 200 (Some no_expiry_reply)\<rparr>"

section \<open>Runs of the report pipeline\<close>

















section \<open>PKCE: the verifier and the challenge\<close>

lemma length_chars: "length chars = 66"
  by (simp add: chars_def ascii_letters_def ascii_lowercase_def ascii_uppercase_def digits_def)

lemma chars_in_class: "list_all verifier_char chars"
  by (simp add: chars_def ascii_letters_def ascii_lowercase_def ascii_uppercase_def digits_def
      verifier_char_def)

lemma secrets_choice_chars: "\<exists>c. secrets_choice r chars = Some c \<and> verifier_char c"
proof -
  have ne: "chars \<noteq> []" using length_chars by auto
  have "r mod length chars < length chars" using length_chars by simp
  then have "chars ! (r mod length chars) \<in> set chars" by (rule nth_mem)
  then have "verifier_char (chars ! (r mod length chars))"
    using chars_in_class by (simp add: list_all_iff)
  then show ?thesis using ne by (simp add: secrets_choice_def)
qed

lemma join_choices_total:
  "\<exists>v. join_choices rnd pos n = Some v \<and> length v = n \<and> list_all verifier_char v"
proof (induction n arbitrary: pos)
  case 0
  show ?case by simp
next
  case (Suc n)
  obtain c where c: "secrets_choice (rnd pos) chars = Some c" "verifier_char c"
    using secrets_choice_chars by blast
  obtain v where v: "join_choices rnd (Suc pos) n = Some v" "length v = n" "list_all verifier_char v"
    using Suc.IH by blast
  show ?case using c v by simp
qed

text \<open>
  C8. Whatever the random source yields from whatever position, \<open>generate_code_verifier\<close>
  returns a string (no draw fails), the string has exactly 128 characters, and each of
  them is in the class \<open>[A-Za-z0-9-._~]\<close>.
\<close>

theorem generate_code_verifier_shape:
  "\<exists>v. generate_code_verifier rnd pos = Some v \<and> length v = 128 \<and> list_all verifier_char v"
  unfolding generate_code_verifier_def by (rule join_choices_total)

lemma py_replace_char: "py_replace [a] [b] s = map (\<lambda>c. if c = a then b else c) s"
  by (induction s) auto

lemma py_rstrip_char_split: "\<exists>n. s = py_rstrip [x] s @ replicate n x"
proof -
  let ?P = "\<lambda>c. c \<in> set [x]"
  have s: "s = py_rstrip [x] s @ rev (takeWhile ?P (rev s))"
    unfolding py_rstrip_def by (metis rev_append rev_rev_ident takeWhile_dropWhile_id)
  have "\<forall>c \<in> set (takeWhile ?P (rev s)). c = x"
    using set_takeWhileD by fastforce
  then have "takeWhile ?P (rev s) = replicate (length (takeWhile ?P (rev s))) x"
    by (simp add: replicate_length_same)
  then have "rev (takeWhile ?P (rev s)) = replicate (length (takeWhile ?P (rev s))) x"
    by (metis rev_replicate)
  then show ?thesis using s by metis
qed

lemma py_rstrip_char_end: "\<nexists>p. py_rstrip [x] s = p @ [x]"
proof
  assume "\<exists>p. py_rstrip [x] s = p @ [x]"
  then obtain p where p: "py_rstrip [x] s = p @ [x]" by blast
  then have "dropWhile (\<lambda>c. c \<in> set [x]) (rev s) = x # rev p"
    by (metis py_rstrip_def rev_rev_ident rev_append rev.simps(2) rev.simps(1) append_Cons append_Nil)
  then have "\<not> (x \<in> set [x])"
    by (metis hd_dropWhile list.sel(1) list.distinct(1))
  then show False by simp
qed

lemma py_rstrip_subset: "set (py_rstrip cs s) \<subseteq> set s"
  unfolding py_rstrip_def using set_dropWhileD by fastforce

text \<open>
  C7. \<open>generate_code_challenge\<close> is a function of the verifier (and of the library's
  SHA-256 and base64). Its result is the base64 text of the digest of the verifier with
  \<open>+\<close> replaced by \<open>-\<close> and \<open>/\<close> by \<open>_\<close>, less a run of \<open>=\<close> at the end; it holds
  no \<open>+\<close> and no \<open>/\<close> and does not end in \<open>=\<close>.
\<close>

theorem generate_code_challenge_s256:
  "(\<exists>n. map url_safe (decode (b64encode L (sha256 L (encode verifier))))
        = generate_code_challenge L verifier @ replicate n (CHR ''=''))
   \<and> CHR ''+'' \<notin> set (generate_code_challenge L verifier)
   \<and> CHR ''/'' \<notin> set (generate_code_challenge L verifier)
   \<and> (\<nexists>p. generate_code_challenge L verifier = p @ ''='')"
proof -
  let ?b = "decode (b64encode L (sha256 L (encode verifier)))"
  have repl: "py_replace ''/'' ''_'' (py_replace ''+'' ''-'' ?b) = map url_safe ?b"
    by (simp add: py_replace_char url_safe_def)
  have c: "generate_code_challenge L verifier = py_rstrip ''='' (map url_safe ?b)"
    by (simp add: generate_code_challenge_def repl)
  have "CHR ''+'' \<notin> set (map url_safe ?b)" "CHR ''/'' \<notin> set (map url_safe ?b)"
    by (auto simp: url_safe_def)
  then have "CHR ''+'' \<notin> set (py_rstrip ''='' (map url_safe ?b))"
    "CHR ''/'' \<notin> set (py_rstrip ''='' (map url_safe ?b))"
    using py_rstrip_subset by blast+
  then show ?thesis
    unfolding c using py_rstrip_char_split [of "map url_safe ?b" "CHR ''=''"] py_rstrip_char_end
    by simp
qed

section \<open>The callback wait and \<open>start_auth_server\<close>\<close>

lemma wait_for_code_timeout:
  "\<forall>j\<le>n. handler_code w (polls w + j) = None \<Longrightarrow>
   \<forall>j<n. \<not> timed_out L (clock w (ticks w + j)) start \<Longrightarrow>
   timed_out L (clock w (ticks w + n)) start \<Longrightarrow>
   wait_for_code L start w =
     Some (Inl (TimeoutError ''Authorization timed out after 5 minutes''),
           w\<lparr>ticks := ticks w + n + 1, listener := Stopped, polls := polls w + n + 1\<rparr>)"
proof (induction n arbitrary: w)
  case 0
  then show ?case
    by (subst wait_for_code.simps) (simp add: time_time_def)
next
  case (Suc n)
  let ?w1 = "w\<lparr>polls := Suc (polls w), ticks := Suc (ticks w)\<rparr>"
  have h0: "handler_code w (polls w) = None"
    using Suc.prems(1) by (metis add.right_neutral le0)
  have c0: "\<not> timed_out L (clock w (ticks w)) start"
    using Suc.prems(2) by (metis add.right_neutral zero_less_Suc)
  have step: "wait_for_code L start w = wait_for_code L start ?w1"
    using h0 c0 by (subst wait_for_code.simps) (simp add: time_time_def)
  have a1: "\<forall>j\<le>n. handler_code ?w1 (polls ?w1 + j) = None"
    using Suc.prems(1) by auto
  have a2: "\<forall>j<n. \<not> timed_out L (clock ?w1 (ticks ?w1 + j)) start"
    using Suc.prems(2) by auto
  have a3: "timed_out L (clock ?w1 (ticks ?w1 + n)) start"
    using Suc.prems(3) by auto
  show ?case
    unfolding step using Suc.IH [OF a1 a2 a3] by simp
qed

lemma wait_for_code_frame:
  assumes "wait_for_code L s w = Some y"
  shows "untouched_by_wait w (snd y)"
proof (rule wait_for_code.raw_induct
    [where P = "\<lambda>L s w y. untouched_by_wait w (snd y)", OF _ assms])
  fix wfc :: "'f pylib \<Rightarrow> 'f \<Rightarrow> 'f world \<Rightarrow> ((error + string) \<times> 'f world) option"
    and L start_time w y
  assume IH: "\<And>L s w y. wfc L s w = Some y \<Longrightarrow> untouched_by_wait w (snd y)"
    and step: "(case handler_code w (polls w) of
        None \<Rightarrow>
          if timed_out L (fst (time_time (w\<lparr>polls := Suc (polls w)\<rparr>))) start_time
          then Some (Inl (TimeoutError ''Authorization timed out after 5 minutes''),
                 snd (time_time (w\<lparr>polls := Suc (polls w)\<rparr>))\<lparr>listener := Stopped\<rparr>)
          else wfc L start_time (snd (time_time (w\<lparr>polls := Suc (polls w)\<rparr>)))
      | Some auth_code \<Rightarrow> Some (Inr auth_code, w\<lparr>polls := Suc (polls w)\<rparr>)) = Some y"
  show "untouched_by_wait w (snd y)"
  proof (cases "handler_code w (polls w)")
    case (Some c)
    then show ?thesis using step by (auto simp: untouched_by_wait_def)
  next
    case None
    show ?thesis
    proof (cases "timed_out L (fst (time_time (w\<lparr>polls := Suc (polls w)\<rparr>))) start_time")
      case True
      then show ?thesis using step None by (auto simp: time_time_def untouched_by_wait_def)
    next
      case False
      then have "wfc L start_time (snd (time_time (w\<lparr>polls := Suc (polls w)\<rparr>))) = Some y"
        using step None by simp
      from IH [OF this] show ?thesis by (simp add: time_time_def untouched_by_wait_def)
    qed
  qed
qed

lemma generate_code_verifier_total: "\<exists>v. generate_code_verifier rnd pos = Some v"
  unfolding generate_code_verifier_def using join_choices_total by blast

lemma start_auth_server_frame:
  assumes "start_auth_server L w a = Some (r, w')"
  shows "binds w' = Suc (binds w) \<and> post_log w' = post_log w \<and> keyring w' = keyring w
     \<and> keyring_fails w' = keyring_fails w \<and> keyring_calls w' = keyring_calls w
     \<and> token_endpoint w' = token_endpoint w \<and> clock w' = clock w
     \<and> soap_server w' = soap_server w \<and> soap_log w' = soap_log w
     \<and> files w' = files w \<and> unwritable w' = unwritable w"
proof (cases "port_taken w (binds w)")
  case True
  then show ?thesis using assms by (auto simp: start_auth_server_def)
next
  case False
  obtain v where v: "generate_code_verifier (entropy w) (drawn w) = Some v"
    using generate_code_verifier_total by blast
  let ?req = "\<lparr>ar_url = auth_url a,
      ar_params = [(''client_id'', client_id a), (''response_type'', ''code''),
        (''redirect_uri'', redirect_uri a), (''scope'', scope a),
        (''code_challenge'', generate_code_challenge L v), (''code_challenge_method'', ''S256'')]\<rparr>"
  let ?w4 = "w\<lparr>binds := Suc (binds w), socket_open := True, listener := Serving,
      drawn := drawn w + 128, browser_log := browser_log w @ [?req], ticks := Suc (ticks w)\<rparr>"
  have unfold: "start_auth_server L w a =
      (case wait_for_code L (clock w (ticks w)) ?w4 of
         None \<Rightarrow> None
       | Some (Inl e, w5) \<Rightarrow> Some (Inl e, w5)
       | Some (Inr auth_code, w5) \<Rightarrow> Some (Inr (auth_code, v), w5\<lparr>listener := Stopped\<rparr>))"
    using False v by (simp add: start_auth_server_def webbrowser_open_def time_time_def Let_def)
  obtain y where y: "wait_for_code L (clock w (ticks w)) ?w4 = Some y"
    using assms unfolding unfold by (cases "wait_for_code L (clock w (ticks w)) ?w4") auto
  have "untouched_by_wait ?w4 (snd y)" using y by (rule wait_for_code_frame)
  moreover have "w' = snd y \<or> w' = (snd y)\<lparr>listener := Stopped\<rparr>"
    using assms unfolding unfold y by (auto split: prod.splits sum.splits)
  ultimately show ?thesis by (auto simp: untouched_by_wait_def)
qed

lemma start_auth_server_port_taken:
  "port_taken w (binds w) \<Longrightarrow>
   start_auth_server L w a =
     Some (Inl (OSError ''Address already in use''), w\<lparr>binds := Suc (binds w)\<rparr>)"
  by (simp add: start_auth_server_def)

lemma start_auth_server_timeout_run:
  assumes port: "\<not> port_taken w (binds w)"
    and quiet: "\<forall>j\<le>n. handler_code w (polls w + j) = None"
    and early: "\<forall>j<n. \<not> timed_out L (clock w (Suc (ticks w) + j)) (clock w (ticks w))"
    and late: "timed_out L (clock w (Suc (ticks w) + n)) (clock w (ticks w))"
  shows "\<exists>w'. start_auth_server L w a =
            Some (Inl (TimeoutError ''Authorization timed out after 5 minutes''), w')
          \<and> listener w' = Stopped \<and> socket_open w'
          \<and> polls w' = polls w + n + 1 \<and> ticks w' = ticks w + n + 2
          \<and> length (browser_log w') = Suc (length (browser_log w))"
proof -
  obtain v where v: "generate_code_verifier (entropy w) (drawn w) = Some v"
    using generate_code_verifier_total by blast
  let ?req = "\<lparr>ar_url = auth_url a,
      ar_params = [(''client_id'', client_id a), (''response_type'', ''code''),
        (''redirect_uri'', redirect_uri a), (''scope'', scope a),
        (''code_challenge'', generate_code_challenge L v), (''code_challenge_method'', ''S256'')]\<rparr>"
  let ?w4 = "w\<lparr>binds := Suc (binds w), socket_open := True, listener := Serving,
      drawn := drawn w + 128, browser_log := browser_log w @ [?req], ticks := Suc (ticks w)\<rparr>"
  have a1: "\<forall>j\<le>n. handler_code ?w4 (polls ?w4 + j) = None" using quiet by simp
  have a2: "\<forall>j<n. \<not> timed_out L (clock ?w4 (ticks ?w4 + j)) (clock w (ticks w))"
    using early by simp
  have a3: "timed_out L (clock ?w4 (ticks ?w4 + n)) (clock w (ticks w))" using late by simp
  have unfold: "start_auth_server L w a =
      (case wait_for_code L (clock w (ticks w)) ?w4 of
         None \<Rightarrow> None
       | Some (Inl e, w5) \<Rightarrow> Some (Inl e, w5)
       | Some (Inr auth_code, w5) \<Rightarrow> Some (Inr (auth_code, v), w5\<lparr>listener := Stopped\<rparr>))"
    using port v by (simp add: start_auth_server_def webbrowser_open_def time_time_def Let_def)
  show ?thesis
    unfolding unfold wait_for_code_timeout [OF a1 a2 a3] by simp
qed

lemma start_auth_server_code_waiting:
  assumes port: "\<not> port_taken w (binds w)" and code: "handler_code w (polls w) = Some c"
  shows "\<exists>v w'. start_auth_server L w a = Some (Inr (c, v), w')
          \<and> listener w' = Stopped \<and> socket_open w'"
proof -
  obtain v where v: "generate_code_verifier (entropy w) (drawn w) = Some v"
    using generate_code_verifier_total by blast
  let ?req = "\<lparr>ar_url = auth_url a,
      ar_params = [(''client_id'', client_id a), (''response_type'', ''code''),
        (''redirect_uri'', redirect_uri a), (''scope'', scope a),
        (''code_challenge'', generate_code_challenge L v), (''code_challenge_method'', ''S256'')]\<rparr>"
  let ?w4 = "w\<lparr>binds := Suc (binds w), socket_open := True, listener := Serving,
      drawn := drawn w + 128, browser_log := browser_log w @ [?req], ticks := Suc (ticks w)\<rparr>"
  have wait: "wait_for_code L (clock w (ticks w)) ?w4 =
      Some (Inr c, ?w4\<lparr>polls := Suc (polls w)\<rparr>)"
    using code by (subst wait_for_code.simps) simp
  have "start_auth_server L w a =
      (case wait_for_code L (clock w (ticks w)) ?w4 of
         None \<Rightarrow> None
       | Some (Inl e, w5) \<Rightarrow> Some (Inl e, w5)
       | Some (Inr auth_code, w5) \<Rightarrow> Some (Inr (auth_code, v), w5\<lparr>listener := Stopped\<rparr>))"
    using port v by (simp add: start_auth_server_def webbrowser_open_def time_time_def Let_def)
  then show ?thesis unfolding wait by simp
qed

lemma timeout_world_times_out:
  "\<not> port_taken timeout_world (binds timeout_world)
   \<and> (\<forall>j\<le>1. handler_code timeout_world (polls timeout_world + j) = None)
   \<and> (\<forall>j<1. \<not> timed_out example_lib (clock timeout_world (Suc (ticks timeout_world) + j))
                (clock timeout_world (ticks timeout_world)))
   \<and> timed_out example_lib (clock timeout_world (Suc (ticks timeout_world) + 1))
        (clock timeout_world (ticks timeout_world))"
  by (simp add: timeout_world_def quiet_world_def timed_out_def example_lib_def)

text \<open>
  C5, as stated, fails. In a world where no callback comes and the clock readings are
  200.5 seconds apart, \<open>start_auth_server\<close> raises the timeout error with the serving
  loop stopped, but the listening socket is still open: \<open>server.shutdown()\<close> does not
  close it and \<open>server_close()\<close> is never called, so port 3009 is not released when the
  error is raised.
\<close>

theorem start_auth_server_port_still_bound:
  "map_option (\<lambda>r. (fst r, listener (snd r), socket_open (snd r)))
       (start_auth_server example_lib timeout_world signed_out) =
     Some (Inl (TimeoutError ''Authorization timed out after 5 minutes''), Stopped, True)"
proof -
  from timeout_world_times_out start_auth_server_timeout_run [of timeout_world 1 example_lib signed_out]
  obtain w' where "start_auth_server example_lib timeout_world signed_out =
        Some (Inl (TimeoutError ''Authorization timed out after 5 minutes''), w')"
      "listener w' = Stopped" "socket_open w'"
    by blast
  then show ?thesis by simp
qed

text \<open>
  C5, amended. With the port free, no code seen at the first \<open>n + 1\<close> evaluations of
  the loop condition, the first \<open>n\<close> clock readings of the loop not more than 300
  seconds after the start and the next one more than 300 seconds after it,
  \<open>start_auth_server\<close> raises the timeout error at that reading, after stopping the
  serving loop: the loop makes \<open>n + 1\<close> turns and none after the first reading beyond
  300 seconds. The listening socket is still open then.
\<close>

theorem start_auth_server_timeout:
  assumes "\<not> port_taken w (binds w)"
    and "\<forall>j\<le>n. handler_code w (polls w + j) = None"
    and "\<forall>j<n. \<not> timed_out L (clock w (Suc (ticks w) + j)) (clock w (ticks w))"
    and "timed_out L (clock w (Suc (ticks w) + n)) (clock w (ticks w))"
  shows "\<exists>w'. start_auth_server L w a =
            Some (Inl (TimeoutError ''Authorization timed out after 5 minutes''), w')
          \<and> listener w' = Stopped \<and> socket_open w'
          \<and> polls w' = polls w + n + 1 \<and> ticks w' = ticks w + n + 2
          \<and> length (browser_log w') = Suc (length (browser_log w))"
  using assms by (rule start_auth_server_timeout_run)

theorem start_auth_server_timeout_witness:
  "\<exists>w'. start_auth_server example_lib timeout_world signed_out =
            Some (Inl (TimeoutError ''Authorization timed out after 5 minutes''), w')
          \<and> listener w' = Stopped \<and> socket_open w' \<and> polls w' = 2 \<and> ticks w' = 3
          \<and> length (browser_log w') = 1"
proof -
  from timeout_world_times_out
    start_auth_server_timeout [of timeout_world 1 example_lib signed_out]
  obtain w' where r: "start_auth_server example_lib timeout_world signed_out =
        Some (Inl (TimeoutError ''Authorization timed out after 5 minutes''), w')"
      "listener w' = Stopped" "socket_open w'"
      "polls w' = polls timeout_world + 1 + 1" "ticks w' = ticks timeout_world + 1 + 2"
      "length (browser_log w') = Suc (length (browser_log timeout_world))"
    by blast
  have "polls w' = 2" "ticks w' = 3" "length (browser_log w') = 1"
    using r(4,5,6) by (simp_all add: timeout_world_def quiet_world_def)
  with r(1,2,3) show ?thesis by blast
qed

section \<open>The keychain, the token endpoint and the steps of \<open>get_connection\<close>\<close>

lemma keychain_step_refl: "keychain_step w w"
  by (simp add: keychain_step_def)

lemma keychain_step_trans: "keychain_step w w1 \<Longrightarrow> keychain_step w1 w2 \<Longrightarrow> keychain_step w w2"
  by (simp add: keychain_step_def)

lemma keychain_step_tick: "keychain_step w (w\<lparr>ticks := t\<rparr>)"
  by (simp add: keychain_step_def)

lemma auth_step_refl: "auth_step w w"
  by (simp add: auth_step_def)

lemma auth_step_trans: "auth_step w w1 \<Longrightarrow> auth_step w1 w2 \<Longrightarrow> auth_step w w2"
  by (auto simp: auth_step_def)

lemma keychain_step_auth_step: "keychain_step w w' \<Longrightarrow> auth_step w w'"
  by (simp add: keychain_step_def auth_step_def)

lemma get_password_step: "keychain_step w (snd (get_password account w))"
  by (simp add: get_password_def keychain_step_def)

lemma set_password_step: "keychain_step w (snd (set_password account secret w))"
  by (simp add: set_password_def keychain_step_def)

lemma delete_password_step: "keychain_step w (snd (delete_password account w))"
  by (simp add: delete_password_def keychain_step_def)

lemma save_to_keychain_step: "keychain_step w (save_to_keychain L w tok e r)"
  by (simp add: save_to_keychain_def set_password_def keychain_step_def)

lemma load_from_keychain_step: "keychain_step w (snd (load_from_keychain L w))"
  by (simp add: load_from_keychain_def get_password_def keychain_step_def split: option.splits)

lemma clear_keychain_step: "keychain_step w (clear_keychain w)"
  by (simp add: clear_keychain_def delete_password_def keychain_step_def)

lemma store_token_data_step:
  assumes "store_token_data L td w a = (r, w', a')"
  shows "keychain_step w w'"
proof (cases "td_access_token td")
  case None
  then show ?thesis using assms by (auto simp: store_token_data_def keychain_step_refl)
next
  case (Some tok)
  have "keychain_step w (snd (time_time w))" by (simp add: time_time_def keychain_step_tick)
  then show ?thesis
    using assms Some save_to_keychain_step keychain_step_trans
    by (fastforce simp: store_token_data_def Let_def split: option.splits)
qed

lemma store_token_data_token:
  assumes "store_token_data L td w a = (Inr tok, w', a')"
  shows "td_access_token td = Some tok \<and> access_token a' = Some tok"
  using assms
  by (auto simp: store_token_data_def Let_def split: option.splits)

lemma issued_between_widen:
  assumes "issued_between w1 w2 tok" "auth_step w w1" "auth_step w2 w'"
  shows "issued_between w w' tok"
proof -
  from assms(1) obtain k status td where k: "length (post_log w1) \<le> k" "k < length (post_log w2)"
    "token_endpoint w1 k = TokenReply status (Some td)" "\<not> (400 \<le> status \<and> status < 600)"
    "td_access_token td = Some tok"
    unfolding issued_between_def by blast
  have "length (post_log w) \<le> length (post_log w1)" using assms(2) by (auto simp: auth_step_def)
  moreover have "length (post_log w2) \<le> length (post_log w')"
    using assms(3) by (auto simp: auth_step_def)
  moreover have "token_endpoint w k = token_endpoint w1 k" using assms(2) by (simp add: auth_step_def)
  ultimately show ?thesis
    unfolding issued_between_def using k
    by (intro exI [of _ k] exI [of _ status] exI [of _ td]) auto
qed

text \<open>A post, and what is done with its answer.\<close>

lemma post_issues:
  assumes reply: "read_token_reply (token_endpoint w (length (post_log w))) = Inr td"
    and stored: "store_token_data L td (w\<lparr>post_log := post_log w @ [form]\<rparr>) a = (Inr tok, w', a')"
  shows "issued_between w w' tok"
proof -
  obtain status where st: "token_endpoint w (length (post_log w)) = TokenReply status (Some td)"
    "\<not> (400 \<le> status \<and> status < 600)"
    using reply by (auto simp: read_token_reply_def split: token_reply.splits if_splits option.splits)
  have "keychain_step (w\<lparr>post_log := post_log w @ [form]\<rparr>) w'"
    using stored by (rule store_token_data_step)
  then have "post_log w' = post_log w @ [form]" by (simp add: keychain_step_def)
  moreover have "td_access_token td = Some tok" using store_token_data_token [OF stored] by simp
  ultimately show ?thesis
    unfolding issued_between_def using st
    by (intro exI [of _ "length (post_log w)"] exI [of _ status] exI [of _ td]) simp
qed



lemma get_token_issues:
  assumes "get_token L w a code ver = (Inr td, w', a')"
  shows "\<exists>tok. td_access_token td = Some tok \<and> issued_between w w' tok"
proof -
  let ?form = "(token_url a, [(''grant_type'', ''authorization_code''), (''code'', code),
      (''redirect_uri'', redirect_uri a), (''client_id'', client_id a), (''code_verifier'', ver)])"
  have reply: "read_token_reply (token_endpoint w (length (post_log w))) = Inr td"
    using assms
    by (auto simp: get_token_def requests_post_def Let_def split: sum.splits prod.splits)
  obtain r2 w2 a2 where s: "store_token_data L td (w\<lparr>post_log := post_log w @ [?form]\<rparr>) a = (r2, w2, a2)"
    by (metis prod_cases3)
  obtain tok where tok: "r2 = Inr tok" "w2 = w'"
    using assms reply s by (auto simp: get_token_def requests_post_def Let_def split: sum.splits)
  have "issued_between w w' tok" using post_issues [OF reply] s tok by blast
  moreover have "td_access_token td = Some tok" using store_token_data_token s tok by blast
  ultimately show ?thesis by blast
qed

lemma refresh_access_token_unfold:
  "refresh_access_token L w a =
     (if \<not> truthy (refresh_candidate L w a) then (None, refresh_world L w a, a)
      else
        (let w0 = refresh_world L w a;
             w1 = w0\<lparr>post_log := post_log w0 @
                    [(token_url a, [(''grant_type'', ''refresh_token''),
                       (''refresh_token'', the (refresh_candidate L w a)),
                       (''client_id'', client_id a)])]\<rparr>
         in case read_token_reply (token_endpoint w0 (length (post_log w0))) of
              Inl e \<Rightarrow> (None, clear_keychain w1, credentials_cleared a)
            | Inr td \<Rightarrow>
                (case store_token_data L td w1 a of
                   (Inl e, w2, a2) \<Rightarrow> (None, clear_keychain w2, credentials_cleared a)
                 | (Inr tok, w2, a2) \<Rightarrow> (access_token a2, w2, a2))))"
  unfolding refresh_access_token_def refresh_candidate_def refresh_world_def
    credentials_cleared_def requests_post_def Let_def
  by (simp split: sum.splits prod.splits)

lemma refresh_world_step: "keychain_step w (refresh_world L w a)"
  by (simp add: refresh_world_def keychain_step_refl load_from_keychain_step)

lemma refresh_access_token_step:
  assumes "refresh_access_token L w a = (r, w', a')"
  shows "auth_step w w' \<and> binds w' = binds w"
proof (cases "truthy (refresh_candidate L w a)")
  case False
  then have "w' = refresh_world L w a" using assms by (auto simp: refresh_access_token_unfold)
  then show ?thesis
    using refresh_world_step [of w L a] by (simp add: keychain_step_def auth_step_def)
next
  case True
  let ?w0 = "refresh_world L w a"
  let ?w1 = "?w0\<lparr>post_log := post_log ?w0 @
      [(token_url a, [(''grant_type'', ''refresh_token''),
         (''refresh_token'', the (refresh_candidate L w a)), (''client_id'', client_id a)])]\<rparr>"
  have s01: "auth_step w ?w1 \<and> binds ?w1 = binds w"
    using refresh_world_step [of w L a] by (auto simp: keychain_step_def auth_step_def)
  show ?thesis
  proof (cases "read_token_reply (token_endpoint ?w0 (length (post_log ?w0)))")
    case (Inl e)
    then have "w' = clear_keychain ?w1"
      using assms True by (simp add: refresh_access_token_unfold Let_def)
    then show ?thesis
      using s01 clear_keychain_step [of ?w1] by (auto simp: keychain_step_def auth_step_def)
  next
    case (Inr td)
    obtain r2 w2 a2 where s: "store_token_data L td ?w1 a = (r2, w2, a2)" by (metis prod_cases3)
    have k12: "keychain_step ?w1 w2" using s by (rule store_token_data_step)
    have "w' = w2 \<or> w' = clear_keychain w2"
      using assms True Inr s by (auto simp: refresh_access_token_unfold Let_def split: sum.splits)
    then show ?thesis
      using s01 k12 clear_keychain_step [of w2] by (auto simp: keychain_step_def auth_step_def)
  qed
qed

lemma refresh_access_token_issues:
  assumes "refresh_access_token L w a = (Some tok, w', a')"
  shows "issued_between w w' tok"
proof -
  let ?w0 = "refresh_world L w a"
  let ?form = "(token_url a, [(''grant_type'', ''refresh_token''),
         (''refresh_token'', the (refresh_candidate L w a)), (''client_id'', client_id a)])"
  let ?w1 = "?w0\<lparr>post_log := post_log ?w0 @ [?form]\<rparr>"
  have t: "truthy (refresh_candidate L w a)"
    using assms by (auto simp: refresh_access_token_unfold split: if_splits)
  obtain td where reply: "read_token_reply (token_endpoint ?w0 (length (post_log ?w0))) = Inr td"
    using assms t by (auto simp: refresh_access_token_unfold Let_def split: sum.splits)
  obtain r2 w2 a2 where s: "store_token_data L td ?w1 a = (r2, w2, a2)" by (metis prod_cases3)
  obtain tok2 where r2: "r2 = Inr tok2" "w' = w2" "access_token a2 = Some tok"
    using assms t reply s by (auto simp: refresh_access_token_unfold Let_def split: sum.splits)
  have "tok2 = tok" using store_token_data_token s r2 by fastforce
  then have "issued_between ?w0 w' tok" using post_issues [OF reply] s r2 by blast
  moreover have "auth_step w ?w0" using refresh_world_step keychain_step_auth_step by blast
  ultimately show ?thesis using issued_between_widen auth_step_refl by blast
qed

lemma start_auth_server_step:
  assumes "start_auth_server L w a = Some (r, w')"
  shows "auth_step w w'"
  using start_auth_server_frame [OF assms] by (simp add: auth_step_def)


lemma full_auth_flow_returns:
  assumes "full_auth_flow L w a = Some (r, w', a')"
  shows "\<exists>t. r = Inr t"
  using assms
  by (auto simp: full_auth_flow_def split: option.splits sum.splits prod.splits)

lemma full_auth_flow_issues:
  assumes "full_auth_flow L w a = Some (Inr (Some tok), w', a')"
  shows "issued_between w w' tok"
proof -
  obtain r1 w1 where s: "start_auth_server L w a = Some (r1, w1)"
    using assms by (auto simp: full_auth_flow_def split: option.splits)
  obtain code ver where r1: "r1 = Inr (code, ver)"
    using assms s by (cases r1) (auto simp: full_auth_flow_def)
  obtain r2 w2 a2 where g: "get_token L w1 a code ver = (r2, w2, a2)" by (metis prod_cases3)
  obtain td where td: "r2 = Inr td" "td_access_token td = Some tok" "w' = w2"
    using assms s r1 g by (cases r2) (auto simp: full_auth_flow_def)
  have "issued_between w1 w' tok" using get_token_issues g td by fastforce
  then show ?thesis
    using issued_between_widen start_auth_server_step s auth_step_refl by blast
qed

section \<open>The paths of \<open>get_connection\<close>\<close>

lemma get_connection_memory:
  assumes "memory_token_fresh L w a"
  shows "get_connection L w a = Some (Inr (access_token a), w\<lparr>ticks := Suc (ticks w)\<rparr>, a)"
  using assms by (simp add: get_connection_def memory_token_fresh_def time_time_def)

text \<open>\<open>get_connection\<close> once the instance's token has been looked at in vain.\<close>

lemma get_connection_after_memory:
  assumes nm: "\<not> memory_token_fresh L w a"
    and ld: "load_from_keychain L (memory_checked L w a) = ((token, expiry, rt), w1)"
  shows "get_connection L w a =
     (if truthy token \<and> truthy_num L expiry \<and> before_margin L (clock w1 (ticks w1)) (the expiry)
      then Some (Inr token, w1\<lparr>ticks := Suc (ticks w1)\<rparr>,
                 a\<lparr>access_token := token, token_expiry := expiry\<rparr>)
      else
        (case refresh_access_token L
                (if truthy token \<and> truthy_num L expiry then w1\<lparr>ticks := Suc (ticks w1)\<rparr> else w1) a of
           (refreshed_token, w3, a3) \<Rightarrow>
             if truthy refreshed_token then Some (Inr refreshed_token, w3, a3)
             else full_auth_flow L w3 a3))"
proof (cases "truthy (access_token a) \<and> truthy_num L (token_expiry a)")
  case True
  then have late: "\<not> before_margin L (clock w (ticks w)) (the (token_expiry a))"
    using nm by (simp add: memory_token_fresh_def)
  have ld': "load_from_keychain L (w\<lparr>ticks := Suc (ticks w)\<rparr>) = ((token, expiry, rt), w1)"
    using ld True by (simp add: memory_checked_def)
  have c: "(truthy (access_token a) \<and> truthy_num L (token_expiry a)) = True"
    using True by simp
  show ?thesis
    unfolding get_connection_def c using late by (simp add: time_time_def ld')
next
  case False
  have ld': "load_from_keychain L w = ((token, expiry, rt), w1)"
    using ld False by (simp add: memory_checked_def)
  have c: "(truthy (access_token a) \<and> truthy_num L (token_expiry a)) = False"
    using False by simp
  show ?thesis
    unfolding get_connection_def c by (simp add: ld' time_time_def)
qed

lemma keychain_loaded:
  "load_from_keychain L (memory_checked L w a) =
     ((stored_token L w a, stored_expiry L w a,
       snd (snd (fst (load_from_keychain L (memory_checked L w a))))), keychain_read L w a)"
  by (simp add: stored_token_def stored_expiry_def keychain_read_def)

lemma get_connection_stored:
  assumes "\<not> memory_token_fresh L w a" "stored_token_fresh L w a"
  shows "get_connection L w a =
     Some (Inr (stored_token L w a),
           (keychain_read L w a)\<lparr>ticks := Suc (ticks (keychain_read L w a))\<rparr>,
           a\<lparr>access_token := stored_token L w a, token_expiry := stored_expiry L w a\<rparr>)"
  unfolding get_connection_after_memory [OF assms(1) keychain_loaded]
  using assms(2) by (simp add: stored_token_fresh_def)

lemma get_connection_uncached:
  assumes "\<not> memory_token_fresh L w a" "\<not> stored_token_fresh L w a"
  shows "get_connection L w a =
     (case refresh_access_token L (cache_checked L w a) a of
        (refreshed_token, w3, a3) \<Rightarrow>
          if truthy refreshed_token then Some (Inr refreshed_token, w3, a3)
          else full_auth_flow L w3 a3)"
  unfolding get_connection_after_memory [OF assms(1) keychain_loaded]
  using assms(2) by (auto simp: stored_token_fresh_def cache_checked_def)

lemma cache_checked_step: "keychain_step w (cache_checked L w a)"
proof -
  have "keychain_step w (memory_checked L w a)"
    by (simp add: memory_checked_def keychain_step_def)
  moreover have "keychain_step (memory_checked L w a) (keychain_read L w a)"
    unfolding keychain_read_def by (rule load_from_keychain_step)
  moreover have "keychain_step (keychain_read L w a) (cache_checked L w a)"
    by (simp add: cache_checked_def keychain_step_def)
  ultimately show ?thesis using keychain_step_trans by blast
qed

lemma get_connection_returns:
  assumes "get_connection L w a = Some (r, w', a')"
  shows "\<exists>t. r = Inr t"
proof (cases "memory_token_fresh L w a")
  case True
  then show ?thesis using assms by (auto simp: get_connection_memory)
next
  case False
  show ?thesis
  proof (cases "stored_token_fresh L w a")
    case True
    then show ?thesis using assms False by (auto simp: get_connection_stored)
  next
    case False
    then show ?thesis
      using assms \<open>\<not> memory_token_fresh L w a\<close> full_auth_flow_returns
      by (auto simp: get_connection_uncached split: prod.splits if_splits)
  qed
qed

text \<open>
  When neither look at the cache gives a token, a token that \<open>get_connection\<close> returns
  was issued by the token endpoint during the call.
\<close>

lemma get_connection_uncached_issues:
  assumes nf: "\<not> memory_token_fresh L w a" "\<not> stored_token_fresh L w a"
    and ret: "get_connection L w a = Some (Inr (Some tok), w', a')"
  shows "issued_between w w' tok"
proof -
  let ?w2 = "cache_checked L w a"
  have s02: "auth_step w ?w2" using cache_checked_step keychain_step_auth_step by blast
  obtain t w3 a3 where ref: "refresh_access_token L ?w2 a = (t, w3, a3)" by (metis prod_cases3)
  show ?thesis
  proof (cases "truthy t")
    case True
    then have "t = Some tok" "w' = w3" using ret ref nf by (simp_all add: get_connection_uncached)
    then have "issued_between ?w2 w' tok" using refresh_access_token_issues ref by blast
    then show ?thesis using issued_between_widen s02 auth_step_refl by blast
  next
    case False
    then have "full_auth_flow L w3 a3 = Some (Inr (Some tok), w', a')"
      using ret ref nf by (simp add: get_connection_uncached)
    then have "issued_between w3 w' tok" by (rule full_auth_flow_issues)
    moreover have "auth_step w w3"
      using refresh_access_token_step [OF ref] s02 auth_step_trans by blast
    ultimately show ?thesis using issued_between_widen auth_step_refl by blast
  qed
qed


text \<open>
  C2. \<open>get_connection\<close> returns the instance's token, after one clock reading and
  nothing else, when that reading is less than the instance's expiry minus 300. Failing
  that, it returns the keychain's token and keeps it in the instance when the reading
  made after the keychain was read is less than the keychain's expiry minus 300. Failing
  both, the cached tokens are skipped: the call is a refresh followed, when the refresh
  gives no token, by the full flow, and a token it returns is one the token endpoint
  issued in answer to a request posted during the call.
\<close>

theorem get_connection_expiry_margin:
  "(memory_token_fresh L w a \<longrightarrow>
      get_connection L w a = Some (Inr (access_token a), w\<lparr>ticks := Suc (ticks w)\<rparr>, a))
   \<and> (\<not> memory_token_fresh L w a \<and> stored_token_fresh L w a \<longrightarrow>
      get_connection L w a =
        Some (Inr (stored_token L w a),
              (keychain_read L w a)\<lparr>ticks := Suc (ticks (keychain_read L w a))\<rparr>,
              a\<lparr>access_token := stored_token L w a, token_expiry := stored_expiry L w a\<rparr>))
   \<and> (\<not> memory_token_fresh L w a \<and> \<not> stored_token_fresh L w a \<longrightarrow>
      get_connection L w a =
        (case refresh_access_token L (cache_checked L w a) a of
           (refreshed_token, w3, a3) \<Rightarrow>
             if truthy refreshed_token then Some (Inr refreshed_token, w3, a3)
             else full_auth_flow L w3 a3)
      \<and> (\<forall>tok w' a'. get_connection L w a = Some (Inr (Some tok), w', a') \<longrightarrow>
            issued_between w w' tok))"
proof (intro conjI impI allI)
  assume "memory_token_fresh L w a"
  then show "get_connection L w a = Some (Inr (access_token a), w\<lparr>ticks := Suc (ticks w)\<rparr>, a)"
    by (rule get_connection_memory)
next
  assume h: "\<not> memory_token_fresh L w a \<and> stored_token_fresh L w a"
  show "get_connection L w a =
        Some (Inr (stored_token L w a),
              (keychain_read L w a)\<lparr>ticks := Suc (ticks (keychain_read L w a))\<rparr>,
              a\<lparr>access_token := stored_token L w a, token_expiry := stored_expiry L w a\<rparr>)"
    by (rule get_connection_stored [OF conjunct1 [OF h] conjunct2 [OF h]])
next
  assume h: "\<not> memory_token_fresh L w a \<and> \<not> stored_token_fresh L w a"
  show "get_connection L w a =
        (case refresh_access_token L (cache_checked L w a) a of
           (refreshed_token, w3, a3) \<Rightarrow>
             if truthy refreshed_token then Some (Inr refreshed_token, w3, a3)
             else full_auth_flow L w3 a3)"
    by (rule get_connection_uncached [OF conjunct1 [OF h] conjunct2 [OF h]])
next
  fix tok w' a'
  assume h: "\<not> memory_token_fresh L w a \<and> \<not> stored_token_fresh L w a"
    and r: "get_connection L w a = Some (Inr (Some tok), w', a')"
  show "issued_between w w' tok"
    by (rule get_connection_uncached_issues [OF conjunct1 [OF h] conjunct2 [OF h] r])
qed

section \<open>\<open>get_connection\<close> on the example worlds\<close>

lemma memory_checked_signed_out: "memory_checked L w signed_out = w"
  by (simp add: memory_checked_def signed_out_def truthy_def)

lemma signed_out_not_fresh: "\<not> memory_token_fresh L w signed_out"
  by (simp add: memory_token_fresh_def signed_out_def truthy_def)

lemma signed_in_fresh:
  "memory_token_fresh example_lib (quiet_world\<lparr>ticks := t\<rparr>) signed_in"
  by (simp add: memory_token_fresh_def signed_in_def signed_out_def truthy_def truthy_num_def
      before_margin_def quiet_world_def example_lib_def)

lemma load_stored_token_world:
  "load_from_keychain example_lib stored_token_world =
     ((Some ''STORED'', Some 5000.5, None), stored_token_world\<lparr>keyring_calls := 3\<rparr>)"
  by (simp add: load_from_keychain_def get_password_def stored_token_world_def quiet_world_def
      truthy_def example_lib_def example_floats_def)

lemma stored_examples:
  shows "stored_token example_lib stored_token_world signed_out = Some ''STORED''"
    and "stored_expiry example_lib stored_token_world signed_out = Some 5000.5"
    and "keychain_read example_lib stored_token_world signed_out =
      stored_token_world\<lparr>keyring_calls := 3\<rparr>"
  by (simp_all add: stored_token_def stored_expiry_def keychain_read_def memory_checked_signed_out
      load_stored_token_world)

lemma stored_fresh_example: "stored_token_fresh example_lib stored_token_world signed_out"
  unfolding stored_token_fresh_def stored_examples
  by (simp add: truthy_def truthy_num_def before_margin_def example_lib_def stored_token_world_def
      quiet_world_def)

lemma load_near_expiry_world:
  "load_from_keychain example_lib (near_expiry_world\<lparr>keyring_calls := k, ticks := t\<rparr>) =
     ((Some ''STORED'', Some 1200.25, None),
      near_expiry_world\<lparr>keyring_calls := Suc (Suc (Suc k)), ticks := t\<rparr>)"
  by (simp add: load_from_keychain_def get_password_def near_expiry_world_def quiet_world_def
      truthy_def example_lib_def example_floats_def)

lemma near_expiry_world_counters:
  "near_expiry_world\<lparr>keyring_calls := 0, ticks := 0\<rparr> = near_expiry_world"
  by (simp add: near_expiry_world_def quiet_world_def)

lemma near_examples:
  shows "stored_token example_lib near_expiry_world signed_out = Some ''STORED''"
    and "stored_expiry example_lib near_expiry_world signed_out = Some 1200.25"
    and "keychain_read example_lib near_expiry_world signed_out =
      near_expiry_world\<lparr>keyring_calls := Suc (Suc (Suc 0)), ticks := 0\<rparr>"
  using load_near_expiry_world [of 0 0] unfolding near_expiry_world_counters
  by (simp_all add: stored_token_def stored_expiry_def keychain_read_def memory_checked_signed_out)

lemma near_not_fresh: "\<not> stored_token_fresh example_lib near_expiry_world signed_out"
  unfolding stored_token_fresh_def near_examples
  by (simp add: truthy_def truthy_num_def before_margin_def example_lib_def near_expiry_world_def
      quiet_world_def)

lemma near_cache_checked:
  "cache_checked example_lib near_expiry_world signed_out =
     near_expiry_world\<lparr>keyring_calls := Suc (Suc (Suc 0)), ticks := Suc 0\<rparr>"
  unfolding cache_checked_def near_examples
  by (simp add: truthy_def truthy_num_def example_lib_def)

lemma near_refresh:
  "refresh_access_token example_lib
      (near_expiry_world\<lparr>keyring_calls := Suc (Suc (Suc 0)), ticks := Suc 0\<rparr>) signed_out =
     (None, near_expiry_world\<lparr>keyring_calls := 6, ticks := Suc 0\<rparr>, signed_out)"
proof -
  have r: "refresh_token signed_out = None" by (simp add: signed_out_def)
  show ?thesis
    unfolding refresh_access_token_unfold refresh_candidate_def refresh_world_def r
      load_near_expiry_world
    by (simp add: truthy_def eval_nat_numeral)
qed

lemma near_full_flow:
  "full_auth_flow example_lib (near_expiry_world\<lparr>keyring_calls := 6, ticks := Suc 0\<rparr>) signed_out =
     Some (Inr None,
           near_expiry_world\<lparr>keyring_calls := 6, ticks := Suc 0, binds := Suc 0\<rparr>, signed_out)"
proof -
  let ?w = "near_expiry_world\<lparr>keyring_calls := 6, ticks := Suc 0\<rparr>"
  have port: "port_taken ?w (binds ?w)" by (simp add: near_expiry_world_def)
  have b: "binds ?w = 0" by (simp add: near_expiry_world_def quiet_world_def)
  show ?thesis
    unfolding full_auth_flow_def start_auth_server_port_taken [OF port] b by simp
qed

lemma load_refreshing_world:
  "load_from_keychain example_lib (refreshing_world\<lparr>keyring_calls := k\<rparr>) =
     ((None, None, Some ''REFRESH''), refreshing_world\<lparr>keyring_calls := Suc (Suc (Suc k))\<rparr>)"
  by (simp add: load_from_keychain_def get_password_def refreshing_world_def quiet_world_def
      truthy_def)

lemma refreshing_world_counters: "refreshing_world\<lparr>keyring_calls := 0\<rparr> = refreshing_world"
  by (simp add: refreshing_world_def quiet_world_def)

lemma refreshing_examples:
  shows "stored_token example_lib refreshing_world signed_out = None"
    and "keychain_read example_lib refreshing_world signed_out =
      refreshing_world\<lparr>keyring_calls := Suc (Suc (Suc 0))\<rparr>"
  using load_refreshing_world [of 0] unfolding refreshing_world_counters
  by (simp_all add: stored_token_def keychain_read_def memory_checked_signed_out)

lemma refreshing_not_fresh: "\<not> stored_token_fresh example_lib refreshing_world signed_out"
  unfolding stored_token_fresh_def refreshing_examples by (simp add: truthy_def)

lemma refreshing_cache_checked:
  "cache_checked example_lib refreshing_world signed_out =
     refreshing_world\<lparr>keyring_calls := Suc (Suc (Suc 0))\<rparr>"
  unfolding cache_checked_def refreshing_examples by (simp add: truthy_def)

lemma refreshing_refresh:
  "fst (refresh_access_token example_lib
          (refreshing_world\<lparr>keyring_calls := Suc (Suc (Suc 0))\<rparr>) signed_out) = Some ''NEW''"
proof -
  have r: "refresh_token signed_out = None" by (simp add: signed_out_def)
  show ?thesis
    unfolding refresh_access_token_unfold refresh_candidate_def refresh_world_def r
      load_refreshing_world
    by (simp add: truthy_def refreshing_world_def quiet_world_def read_token_reply_def
        store_token_data_def Let_def)
qed

text \<open>
  C2, at concrete inputs. The signed-in instance gets its own token, twice in a row. A
  keychain token that expires in 3999.75 seconds is returned. A keychain token that
  expires in 199.5 seconds, inside the margin, is not returned: with no refresh token
  and port 3009 taken the call gives \<open>None\<close>. With a refresh token in the keychain and a
  token endpoint that answers, the token returned is the one the endpoint issued.
\<close>

theorem get_connection_expiry_margin_witness:
  "memory_token_fresh example_lib quiet_world signed_in
   \<and> get_connection example_lib quiet_world signed_in =
       Some (Inr (Some ''TOKEN''), quiet_world\<lparr>ticks := Suc 0\<rparr>, signed_in)
   \<and> memory_token_fresh example_lib (quiet_world\<lparr>ticks := Suc 0\<rparr>) signed_in
   \<and> get_connection example_lib (quiet_world\<lparr>ticks := Suc 0\<rparr>) signed_in =
       Some (Inr (Some ''TOKEN''), quiet_world\<lparr>ticks := Suc (Suc 0)\<rparr>, signed_in)
   \<and> \<not> memory_token_fresh example_lib stored_token_world signed_out
   \<and> stored_token_fresh example_lib stored_token_world signed_out
   \<and> get_connection example_lib stored_token_world signed_out =
       Some (Inr (Some ''STORED''), stored_token_world\<lparr>keyring_calls := 3, ticks := Suc 0\<rparr>,
             signed_out\<lparr>access_token := Some ''STORED'', token_expiry := Some 5000.5\<rparr>)
   \<and> \<not> memory_token_fresh example_lib near_expiry_world signed_out
   \<and> \<not> stored_token_fresh example_lib near_expiry_world signed_out
   \<and> stored_token example_lib near_expiry_world signed_out = Some ''STORED''
   \<and> get_connection example_lib near_expiry_world signed_out =
       Some (Inr None,
             near_expiry_world\<lparr>keyring_calls := 6, ticks := Suc 0, binds := Suc 0\<rparr>, signed_out)
   \<and> \<not> memory_token_fresh example_lib refreshing_world signed_out
   \<and> \<not> stored_token_fresh example_lib refreshing_world signed_out
   \<and> (\<exists>w' a'. get_connection example_lib refreshing_world signed_out =
                 Some (Inr (Some ''NEW''), w', a')
              \<and> issued_between refreshing_world w' ''NEW'')"
proof -
  have q0: "quiet_world\<lparr>ticks := 0\<rparr> = quiet_world" by (simp add: quiet_world_def)
  have m0: "memory_token_fresh example_lib quiet_world signed_in"
    using signed_in_fresh [of 0] unfolding q0 .
  have m1: "memory_token_fresh example_lib (quiet_world\<lparr>ticks := Suc 0\<rparr>) signed_in"
    by (rule signed_in_fresh)
  have tok: "access_token signed_in = Some ''TOKEN''" by (simp add: signed_in_def)
  have g0: "get_connection example_lib quiet_world signed_in =
       Some (Inr (Some ''TOKEN''), quiet_world\<lparr>ticks := Suc 0\<rparr>, signed_in)"
    using get_connection_expiry_margin [of example_lib quiet_world signed_in] m0 tok
    by (simp add: quiet_world_def)
  have g1: "get_connection example_lib (quiet_world\<lparr>ticks := Suc 0\<rparr>) signed_in =
       Some (Inr (Some ''TOKEN''), quiet_world\<lparr>ticks := Suc (Suc 0)\<rparr>, signed_in)"
    using get_connection_expiry_margin [of example_lib "quiet_world\<lparr>ticks := Suc 0\<rparr>" signed_in]
      m1 tok
    by simp
  have s: "get_connection example_lib stored_token_world signed_out =
       Some (Inr (Some ''STORED''), stored_token_world\<lparr>keyring_calls := 3, ticks := Suc 0\<rparr>,
             signed_out\<lparr>access_token := Some ''STORED'', token_expiry := Some 5000.5\<rparr>)"
    using get_connection_expiry_margin [of example_lib stored_token_world signed_out]
      signed_out_not_fresh [of example_lib stored_token_world] stored_fresh_example
    unfolding stored_examples
    by (simp add: stored_token_world_def quiet_world_def)
  have n: "get_connection example_lib near_expiry_world signed_out =
       Some (Inr None,
             near_expiry_world\<lparr>keyring_calls := 6, ticks := Suc 0, binds := Suc 0\<rparr>, signed_out)"
    using get_connection_expiry_margin [of example_lib near_expiry_world signed_out]
      signed_out_not_fresh [of example_lib near_expiry_world] near_not_fresh
    unfolding near_cache_checked near_refresh
    by (simp add: truthy_def near_full_flow)
  have r: "\<exists>w' a'. get_connection example_lib refreshing_world signed_out =
                 Some (Inr (Some ''NEW''), w', a')
              \<and> issued_between refreshing_world w' ''NEW''"
  proof -
    obtain t w3 a3 where ref: "refresh_access_token example_lib
          (refreshing_world\<lparr>keyring_calls := Suc (Suc (Suc 0))\<rparr>) signed_out = (t, w3, a3)"
      by (metis prod_cases3)
    have t: "t = Some ''NEW''" using refreshing_refresh unfolding ref by simp
    have c: "\<not> memory_token_fresh example_lib refreshing_world signed_out
        \<and> \<not> stored_token_fresh example_lib refreshing_world signed_out"
      using signed_out_not_fresh refreshing_not_fresh by blast
    note margin = get_connection_expiry_margin [of example_lib refreshing_world signed_out]
    have g: "get_connection example_lib refreshing_world signed_out =
        Some (Inr (Some ''NEW''), w3, a3)"
      using margin c unfolding refreshing_cache_checked ref t by (simp add: truthy_def)
    have "issued_between refreshing_world w3 ''NEW''"
      using margin c g by blast
    then show ?thesis using g by blast
  qed
  show ?thesis
    using m0 g0 m1 g1 s n r signed_out_not_fresh stored_fresh_example near_not_fresh
      refreshing_not_fresh near_examples(1)
    by simp
qed

section \<open>Failure of the full authentication flow\<close>

lemma get_connection_full_flow:
  assumes "\<not> memory_token_fresh L w a" "\<not> stored_token_fresh L w a"
    and "refresh_access_token L (cache_checked L w a) a = (t, w3, a3)" "\<not> truthy t"
  shows "get_connection L w a = full_auth_flow L w3 a3"
  unfolding get_connection_uncached [OF assms(1,2)] assms(3) using assms(4) by simp

lemma full_auth_flow_server_raises:
  assumes "start_auth_server L w a = Some (Inl e, w1)"
  shows "full_auth_flow L w a = Some (Inr None, w1, a)"
  unfolding full_auth_flow_def assms by simp

lemma full_auth_flow_exchange_raises:
  assumes "start_auth_server L w a = Some (Inr (code, ver), w1)"
    and "get_token L w1 a code ver = (Inl e, w2, a2)"
  shows "full_auth_flow L w a = Some (Inr None, w2, a2)"
  unfolding full_auth_flow_def assms(1) using assms(2) by simp

lemma get_token_unanswered:
  assumes "token_endpoint w (length (post_log w)) = NoTokenReply msg"
  shows "\<exists>w'. get_token L w a code ver = (Inl (RequestException msg), w', a)"
  using assms by (simp add: get_token_def requests_post_def read_token_reply_def)

text \<open>An empty keychain that works: both looks at it give nothing.\<close>

lemma load_empty_keychain:
  assumes "keyring w = Map.empty" "\<forall>k. \<not> keyring_fails w k"
  shows "load_from_keychain L w =
     ((None, None, None), w\<lparr>keyring_calls := Suc (Suc (Suc (keyring_calls w)))\<rparr>)"
  using assms by (simp add: load_from_keychain_def get_password_def truthy_def)

lemma signed_out_empty_keychain:
  assumes "keyring w = Map.empty" "\<forall>k. \<not> keyring_fails w k"
  shows "\<not> stored_token_fresh L w signed_out"
    and "refresh_access_token L (cache_checked L w signed_out) signed_out =
      (None, w\<lparr>keyring_calls := keyring_calls w + 6\<rparr>, signed_out)"
proof -
  have st: "stored_token L w signed_out = None"
    and kr: "keychain_read L w signed_out = w\<lparr>keyring_calls := Suc (Suc (Suc (keyring_calls w)))\<rparr>"
    by (simp_all add: stored_token_def keychain_read_def memory_checked_signed_out
        load_empty_keychain [OF assms])
  show "\<not> stored_token_fresh L w signed_out"
    by (simp add: stored_token_fresh_def st truthy_def)
  have cc: "cache_checked L w signed_out = w\<lparr>keyring_calls := Suc (Suc (Suc (keyring_calls w)))\<rparr>"
    by (simp add: cache_checked_def st kr truthy_def)
  have r: "refresh_token signed_out = None" by (simp add: signed_out_def)
  have ld: "load_from_keychain L (w\<lparr>keyring_calls := Suc (Suc (Suc (keyring_calls w)))\<rparr>) =
      ((None, None, None), w\<lparr>keyring_calls := keyring_calls w + 6\<rparr>)"
    using load_empty_keychain [of "w\<lparr>keyring_calls := Suc (Suc (Suc (keyring_calls w)))\<rparr>" L] assms
    by (simp add: eval_nat_numeral)
  show "refresh_access_token L (cache_checked L w signed_out) signed_out =
      (None, w\<lparr>keyring_calls := keyring_calls w + 6\<rparr>, signed_out)"
    unfolding cc refresh_access_token_unfold refresh_candidate_def refresh_world_def r ld
    by (simp add: truthy_def)
qed

lemma timeout_world_keychain:
  "keyring timeout_world = Map.empty \<and> (\<forall>k. \<not> keyring_fails timeout_world k)"
  by (simp add: timeout_world_def quiet_world_def)

lemma exchange_failure_world_keychain:
  "keyring exchange_failure_world = Map.empty \<and> (\<forall>k. \<not> keyring_fails exchange_failure_world k)"
  by (simp add: exchange_failure_world_def quiet_world_def)

lemma timeout_world_flow_times_out:
  "\<exists>w4. start_auth_server example_lib
            (timeout_world\<lparr>keyring_calls := keyring_calls timeout_world + 6\<rparr>) signed_out =
          Some (Inl (TimeoutError ''Authorization timed out after 5 minutes''), w4)"
proof -
  let ?w = "timeout_world\<lparr>keyring_calls := keyring_calls timeout_world + 6\<rparr>"
  have port: "\<not> port_taken ?w (binds ?w)"
    and quiet: "\<forall>j\<le>1. handler_code ?w (polls ?w + j) = None"
    and early: "\<forall>j<1. \<not> timed_out example_lib (clock ?w (Suc (ticks ?w) + j)) (clock ?w (ticks ?w))"
    and late: "timed_out example_lib (clock ?w (Suc (ticks ?w) + 1)) (clock ?w (ticks ?w))"
    using timeout_world_times_out by simp_all
  show ?thesis
    using start_auth_server_timeout_run [OF port quiet early late, of signed_out] by blast
qed

lemma exchange_failure_world_flow:
  "\<exists>ver w4 w5. start_auth_server example_lib
        (exchange_failure_world\<lparr>keyring_calls := keyring_calls exchange_failure_world + 6\<rparr>)
        signed_out = Some (Inr (''CODE'', ver), w4)
     \<and> get_token example_lib w4 signed_out ''CODE'' ver =
         (Inl (RequestException ''unreachable''), w5, signed_out)"
proof -
  let ?w = "exchange_failure_world\<lparr>keyring_calls := keyring_calls exchange_failure_world + 6\<rparr>"
  have port: "\<not> port_taken ?w (binds ?w)" and code: "handler_code ?w (polls ?w) = Some ''CODE''"
    by (simp_all add: exchange_failure_world_def quiet_world_def)
  obtain ver w4 where s: "start_auth_server example_lib ?w signed_out = Some (Inr (''CODE'', ver), w4)"
    using start_auth_server_code_waiting [OF port code, of example_lib signed_out] by blast
  have "token_endpoint w4 = token_endpoint ?w" "post_log w4 = post_log ?w"
    using start_auth_server_frame [OF s] by simp_all
  then have "token_endpoint w4 (length (post_log w4)) = NoTokenReply ''unreachable''"
    by (simp add: exchange_failure_world_def quiet_world_def)
  then obtain w5 where "get_token example_lib w4 signed_out ''CODE'' ver =
      (Inl (RequestException ''unreachable''), w5, signed_out)"
    using get_token_unanswered by blast
  then show ?thesis using s by blast
qed

text \<open>
  C3, as the specification has it, does not hold. With nobody signed in, an empty
  keychain and no callback, \<open>get_connection\<close> reaches the full flow, where
  \<open>start_auth_server\<close> raises \<open>TimeoutError\<close>; \<open>get_connection\<close> returns \<open>None\<close> and
  raises nothing.
\<close>

theorem get_connection_timeout_returns_none:
  "fst (refresh_access_token example_lib (cache_checked example_lib timeout_world signed_out)
          signed_out) = None
   \<and> fst (snd (refresh_access_token example_lib
                  (cache_checked example_lib timeout_world signed_out) signed_out)) =
       timeout_world\<lparr>keyring_calls := keyring_calls timeout_world + 6\<rparr>
   \<and> map_option fst (start_auth_server example_lib
         (timeout_world\<lparr>keyring_calls := keyring_calls timeout_world + 6\<rparr>) signed_out) =
       Some (Inl (TimeoutError ''Authorization timed out after 5 minutes''))
   \<and> map_option fst (get_connection example_lib timeout_world signed_out) = Some (Inr None)"
proof -
  have k: "keyring timeout_world = Map.empty" "\<forall>k. \<not> keyring_fails timeout_world k"
    using timeout_world_keychain by simp_all
  note ref = signed_out_empty_keychain(2) [OF k, of example_lib]
  obtain w4 where s: "start_auth_server example_lib
            (timeout_world\<lparr>keyring_calls := keyring_calls timeout_world + 6\<rparr>) signed_out =
          Some (Inl (TimeoutError ''Authorization timed out after 5 minutes''), w4)"
    using timeout_world_flow_times_out by blast
  have "get_connection example_lib timeout_world signed_out = Some (Inr None, w4, signed_out)"
    using get_connection_full_flow [OF signed_out_not_fresh signed_out_empty_keychain(1) [OF k] ref]
      full_auth_flow_server_raises [OF s]
    by (simp add: truthy_def)
  then show ?thesis using ref s by simp
qed

text \<open>
  C3, amended. When neither cached token is usable and the refresh gives no token, so
  that the full flow is reached: if \<open>start_auth_server\<close> raises (the callback wait
  times out, or anything else), or if it gives a code and the exchange \<open>get_token\<close>
  raises, then \<open>get_connection\<close> returns \<open>None\<close>, in the world and with the instance
  the failing step left; and it raises nothing.
\<close>

theorem get_connection_full_flow_failure:
  assumes "\<not> memory_token_fresh L w a" "\<not> stored_token_fresh L w a"
    and "refresh_access_token L (cache_checked L w a) a = (t, w3, a3)" "\<not> truthy t"
  shows "(\<forall>e w4. start_auth_server L w3 a3 = Some (Inl e, w4) \<longrightarrow>
            get_connection L w a = Some (Inr None, w4, a3))
       \<and> (\<forall>code ver w4 e w5 a5.
            start_auth_server L w3 a3 = Some (Inr (code, ver), w4)
            \<and> get_token L w4 a3 code ver = (Inl e, w5, a5) \<longrightarrow>
            get_connection L w a = Some (Inr None, w5, a5))
       \<and> (\<forall>e w' a'. get_connection L w a \<noteq> Some (Inl e, w', a'))"
proof (intro conjI allI impI)
  fix e w4
  assume "start_auth_server L w3 a3 = Some (Inl e, w4)"
  then show "get_connection L w a = Some (Inr None, w4, a3)"
    unfolding get_connection_full_flow [OF assms] by (rule full_auth_flow_server_raises)
next
  fix code ver w4 e w5 a5
  assume h: "start_auth_server L w3 a3 = Some (Inr (code, ver), w4)
      \<and> get_token L w4 a3 code ver = (Inl e, w5, a5)"
  show "get_connection L w a = Some (Inr None, w5, a5)"
    unfolding get_connection_full_flow [OF assms]
    by (rule full_auth_flow_exchange_raises [OF conjunct1 [OF h] conjunct2 [OF h]])
next
  fix e w' a'
  show "get_connection L w a \<noteq> Some (Inl e, w', a')"
    using get_connection_returns [of L w a "Inl e" w' a'] by auto
qed

theorem get_connection_full_flow_failure_witness:
  "(\<exists>t w3 a3 w4.
      \<not> memory_token_fresh example_lib timeout_world signed_out
      \<and> \<not> stored_token_fresh example_lib timeout_world signed_out
      \<and> refresh_access_token example_lib (cache_checked example_lib timeout_world signed_out)
          signed_out = (t, w3, a3)
      \<and> \<not> truthy t
      \<and> start_auth_server example_lib w3 a3 =
          Some (Inl (TimeoutError ''Authorization timed out after 5 minutes''), w4)
      \<and> get_connection example_lib timeout_world signed_out = Some (Inr None, w4, a3))
   \<and> (\<exists>t w3 a3 ver w4 w5 a5.
      \<not> memory_token_fresh example_lib exchange_failure_world signed_out
      \<and> \<not> stored_token_fresh example_lib exchange_failure_world signed_out
      \<and> refresh_access_token example_lib
          (cache_checked example_lib exchange_failure_world signed_out) signed_out = (t, w3, a3)
      \<and> \<not> truthy t
      \<and> start_auth_server example_lib w3 a3 = Some (Inr (''CODE'', ver), w4)
      \<and> get_token example_lib w4 a3 ''CODE'' ver = (Inl (RequestException ''unreachable''), w5, a5)
      \<and> get_connection example_lib exchange_failure_world signed_out = Some (Inr None, w5, a5))"
proof -
  have nt: "\<not> truthy None" by (simp add: truthy_def)
  have k1: "keyring timeout_world = Map.empty" "\<forall>k. \<not> keyring_fails timeout_world k"
    using timeout_world_keychain by simp_all
  note nf1 = signed_out_empty_keychain(1) [OF k1, of example_lib]
  note ref1 = signed_out_empty_keychain(2) [OF k1, of example_lib]
  obtain w4 where s1: "start_auth_server example_lib
            (timeout_world\<lparr>keyring_calls := keyring_calls timeout_world + 6\<rparr>) signed_out =
          Some (Inl (TimeoutError ''Authorization timed out after 5 minutes''), w4)"
    using timeout_world_flow_times_out by blast
  have g1: "get_connection example_lib timeout_world signed_out = Some (Inr None, w4, signed_out)"
    using get_connection_full_flow_failure [OF signed_out_not_fresh nf1 ref1 nt] s1 by blast
  have first: "\<exists>t w3 a3 w4.
      \<not> memory_token_fresh example_lib timeout_world signed_out
      \<and> \<not> stored_token_fresh example_lib timeout_world signed_out
      \<and> refresh_access_token example_lib (cache_checked example_lib timeout_world signed_out)
          signed_out = (t, w3, a3)
      \<and> \<not> truthy t
      \<and> start_auth_server example_lib w3 a3 =
          Some (Inl (TimeoutError ''Authorization timed out after 5 minutes''), w4)
      \<and> get_connection example_lib timeout_world signed_out = Some (Inr None, w4, a3)"
    using signed_out_not_fresh nf1 ref1 nt s1 g1 by blast
  have k2: "keyring exchange_failure_world = Map.empty"
    "\<forall>k. \<not> keyring_fails exchange_failure_world k"
    using exchange_failure_world_keychain by simp_all
  note nf2 = signed_out_empty_keychain(1) [OF k2, of example_lib]
  note ref2 = signed_out_empty_keychain(2) [OF k2, of example_lib]
  obtain ver v4 v5 where s2: "start_auth_server example_lib
        (exchange_failure_world\<lparr>keyring_calls := keyring_calls exchange_failure_world + 6\<rparr>)
        signed_out = Some (Inr (''CODE'', ver), v4)"
    and t2: "get_token example_lib v4 signed_out ''CODE'' ver =
         (Inl (RequestException ''unreachable''), v5, signed_out)"
    using exchange_failure_world_flow by blast
  have g2: "get_connection example_lib exchange_failure_world signed_out =
      Some (Inr None, v5, signed_out)"
    using get_connection_full_flow_failure [OF signed_out_not_fresh nf2 ref2 nt] s2 t2 by blast
  have second: "\<exists>t w3 a3 ver w4 w5 a5.
      \<not> memory_token_fresh example_lib exchange_failure_world signed_out
      \<and> \<not> stored_token_fresh example_lib exchange_failure_world signed_out
      \<and> refresh_access_token example_lib
          (cache_checked example_lib exchange_failure_world signed_out) signed_out = (t, w3, a3)
      \<and> \<not> truthy t
      \<and> start_auth_server example_lib w3 a3 = Some (Inr (''CODE'', ver), w4)
      \<and> get_token example_lib w4 a3 ''CODE'' ver = (Inl (RequestException ''unreachable''), w5, a5)
      \<and> get_connection example_lib exchange_failure_world signed_out = Some (Inr None, w5, a5)"
    using signed_out_not_fresh nf2 ref2 nt s2 t2 g2 by blast
  show ?thesis using first second by (rule conjI)
qed

section \<open>A refresh that fails\<close>















section \<open>A token without \<open>expires_in\<close>\<close>

lemma save_to_keychain_expiry:
  assumes "\<not> keyring_fails w (keyring_calls w)" "\<not> keyring_fails w (Suc (keyring_calls w))"
  shows "keyring (save_to_keychain L w tok e r) ''oauth_token'' = Some tok
       \<and> keyring (save_to_keychain L w tok e r) ''oauth_token_expiry'' = Some (str_float_opt L e)"
  using assms by (simp add: save_to_keychain_def set_password_def)

lemma load_unreadable_expiry:
  assumes "keyring w ''oauth_token_expiry'' = Some s" "s \<noteq> []" "float_of_str L s = None"
  shows "fst (load_from_keychain L w) = (None, None, None)"
  using assms by (simp add: load_from_keychain_def get_password_def truthy_def)

text \<open>
  C10. Let the token endpoint answer the code exchange with a JSON object that has an
  \<open>access_token\<close> and no \<open>expires_in\<close>, the instance hold no expiry, the keyring take
  the two writes, and \<open>float\<close> raise on the text \<open>None\<close> (as Python's does). Then
  \<open>get_token\<close> returns the answer, the keychain holds the token and the text \<open>None\<close> as
  its expiry, and every load from a keychain with this expiry entry gives
  \<open>(None, None, None)\<close>, whatever else the keychain holds.
\<close>

theorem get_token_persists_none_expiry:
  assumes "read_token_reply (token_endpoint w (length (post_log w))) = Inr td"
    and "td_access_token td = Some tok" and "td_expires_in td = None"
    and "token_expiry a = None"
    and "\<not> keyring_fails w (keyring_calls w)" and "\<not> keyring_fails w (Suc (keyring_calls w))"
    and "float_of_str L ''None'' = None"
  shows "fst (get_token L w a code ver) = Inr td
       \<and> keyring (fst (snd (get_token L w a code ver))) ''oauth_token'' = Some tok
       \<and> keyring (fst (snd (get_token L w a code ver))) ''oauth_token_expiry'' = Some ''None''
       \<and> (\<forall>w''. keyring w'' ''oauth_token_expiry'' =
                  keyring (fst (snd (get_token L w a code ver))) ''oauth_token_expiry'' \<longrightarrow>
               fst (load_from_keychain L w'') = (None, None, None))"
proof -
  let ?form = "(token_url a, [(''grant_type'', ''authorization_code''), (''code'', code),
      (''redirect_uri'', redirect_uri a), (''client_id'', client_id a), (''code_verifier'', ver)])"
  let ?w1 = "w\<lparr>post_log := post_log w @ [?form]\<rparr>"
  let ?a3 = "case td_refresh_token td of None \<Rightarrow> a\<lparr>access_token := Some tok\<rparr>
             | Some r \<Rightarrow> a\<lparr>access_token := Some tok, refresh_token := Some r\<rparr>"
  let ?w3 = "save_to_keychain L ?w1 tok None
      (if td_refresh_token td \<noteq> None then refresh_token ?a3 else None)"
  have e3: "token_expiry ?a3 = None" using assms(4) by (simp split: option.splits)
  have st: "store_token_data L td ?w1 a = (Inr tok, ?w3, ?a3)"
    using assms(2,3,4) by (simp add: store_token_data_def Let_def split: option.splits)
  have g: "get_token L w a code ver = (Inr td, ?w3, ?a3)"
    using assms(1) st by (simp add: get_token_def requests_post_def Let_def)
  have k: "\<not> keyring_fails ?w1 (keyring_calls ?w1)" "\<not> keyring_fails ?w1 (Suc (keyring_calls ?w1))"
    using assms(5,6) by simp_all
  note s = save_to_keychain_expiry [OF k, of L tok None
      "if td_refresh_token td \<noteq> None then refresh_token ?a3 else None"]
  have n: "str_float_opt L None = ''None''" by (simp add: str_float_opt_def)
  have "fst (load_from_keychain L w'') = (None, None, None)"
    if "keyring w'' ''oauth_token_expiry'' = Some ''None''" for w''
    using load_unreadable_expiry [OF that _ assms(7)] by simp
  then show ?thesis unfolding g using s n by simp
qed

theorem get_token_persists_none_expiry_witness:
  "read_token_reply (token_endpoint no_expiry_world (length (post_log no_expiry_world))) =
     Inr no_expiry_reply
   \<and> td_access_token no_expiry_reply = Some ''NEW'' \<and> td_expires_in no_expiry_reply = None
   \<and> token_expiry signed_out = None
   \<and> \<not> keyring_fails no_expiry_world (keyring_calls no_expiry_world)
   \<and> \<not> keyring_fails no_expiry_world (Suc (keyring_calls no_expiry_world))
   \<and> float_of_str example_lib ''None'' = None
   \<and> fst (get_token example_lib no_expiry_world signed_out ''CODE'' ''VERIFIER'') =
       Inr no_expiry_reply
   \<and> keyring (fst (snd (get_token example_lib no_expiry_world signed_out ''CODE'' ''VERIFIER'')))
       ''oauth_token'' = Some ''NEW''
   \<and> keyring (fst (snd (get_token example_lib no_expiry_world signed_out ''CODE'' ''VERIFIER'')))
       ''oauth_token_expiry'' = Some ''None''
   \<and> fst (load_from_keychain example_lib
            (fst (snd (get_token example_lib no_expiry_world signed_out ''CODE'' ''VERIFIER'')))) =
       (None, None, None)"
proof -
  have h1: "read_token_reply (token_endpoint no_expiry_world (length (post_log no_expiry_world))) =
     Inr no_expiry_reply"
    by (simp add: no_expiry_world_def quiet_world_def read_token_reply_def)
  have h2: "td_access_token no_expiry_reply = Some ''NEW''"
    and h3: "td_expires_in no_expiry_reply = None"
    by (simp_all add: no_expiry_reply_def)
  have h4: "token_expiry signed_out = None" by (simp add: signed_out_def)
  have h5: "\<not> keyring_fails no_expiry_world (keyring_calls no_expiry_world)"
    and h6: "\<not> keyring_fails no_expiry_world (Suc (keyring_calls no_expiry_world))"
    by (simp_all add: no_expiry_world_def quiet_world_def)
  have h7: "float_of_str example_lib ''None'' = None"
    by (simp add: example_lib_def example_floats_def)
  show ?thesis
    using get_token_persists_none_expiry [OF h1 h2 h3 h4 h5 h6 h7, of "''CODE''" "''VERIFIER''"]
      h1 h2 h3 h4 h5 h6 h7
    by simp
qed

section \<open>The report pipeline\<close>






















lemma length_download_requests [simp]:
  "length (download_requests file_id begin_idx chunk_size n) = n"
  by (simp add: download_requests_def)




section \<open>Errors of the report pipeline\<close>







section \<open>The report pipeline on the example services\<close>














end
